theory Spec2Isabelle
  imports Main
begin

section \<open>Data model\<close>

text \<open>
  The Digital Wardrobe application stores clothing items in a document database and
  serves them through REST handlers. The handlers are modelled as pure functions from the
  decoded request and the database to a response and the new database. Decoding the
  request (the JSON body, the multipart form, the route parameter) and the connection to
  the database are the framework's work and come before the model: a request whose body
  does not decode, or a database that cannot be reached, ends in the handler's catch-all
  500 branch and is not an input of the functions below.
\<close>

text \<open>
  The \<open>Item\<close> document (the Mongoose schema \<open>itemSchema\<close>). Strings are kept as the
  code has them; the enumerations of the schema are checked by \<open>item_schema_valid\<close>.
  The schema's \<open>timestamps: true\<close> gives every document the stamps \<open>createdAt\<close> and
  \<open>updatedAt\<close> (milliseconds since the epoch): \<open>save\<close> sets both on the new document,
  and every update sets \<open>updatedAt\<close> again.
\<close>

record Item =
  item_id :: string
  userId :: string
  name :: string
  filename :: string
  objectUrl :: string
  thumbnailUrl :: "string option"
  processedUrl :: "string option"
  colors :: "string list"
  type :: string
  occasion :: string
  season :: string
  laundryStatus :: string
  usageCount :: int
  isFavorite :: bool
  createdAt :: nat
  updatedAt :: nat

text \<open>An outfit proposal as the suggestion handler returns it.\<close>

record suggestion =
  outfit_name :: string
  description :: string
  itemIds :: "string list"
  reasoning :: string

subsection \<open>Documents, database and request\<close>

text \<open>
  \<open>ItemHistory\<close> and \<open>AuditLog\<close> documents. The audit payload is the object the
  handler hands to \<open>JSON.stringify\<close>.
\<close>

record ItemHistory =
  h_itemId :: string
  h_action :: string
  h_performedBy :: string
  h_notes :: string

datatype json = JString string | JNumber int | JBool bool | JStrings "string list"
  | JObject "(string \<times> json) list"

record AuditLog =
  a_userId :: string
  a_action :: string
  a_payload :: json
  a_ipAddress :: string

text \<open>
  The database: the three collections in insertion order, and the ids of the users
  (all that \<open>populate\<close> needs).
\<close>

record db =
  db_items :: "Item list"
  db_history :: "ItemHistory list"
  db_audit :: "AuditLog list"
  db_users :: "string list"

text \<open>The two request headers the handlers read.\<close>

record request =
  x_user_id :: "string option"
  x_forwarded_for :: "string option"

type_synonym http_error = "nat \<times> string"

definition getAuthenticatedUserId :: "request \<Rightarrow> string option" where
  "getAuthenticatedUserId req = x_user_id req"

text \<open>\<open>request.headers.get('x-forwarded-for') || 'unknown'\<close>\<close>

definition ipAddress_of :: "request \<Rightarrow> string" where
  "ipAddress_of req =
     (case x_forwarded_for req of None \<Rightarrow> ''unknown''
      | Some a \<Rightarrow> if a = [] then ''unknown'' else a)"

section \<open>Outfit suggestion: the rule-based generator\<close>

text \<open>
  \<open>generateFallbackOutfits\<close> of \<open>outfits/suggest/route.ts\<close>: the first TOP with the
  first BOTTOM (and the first OUTERWEAR when there is one), the first DRESS alone, the
  second TOP with the second BOTTOM; at most three. The parameters \<open>occasion\<close> and
  \<open>season\<close> are accepted and never read, as in the source.
\<close>

definition generateFallbackOutfits ::
  "Item list \<Rightarrow> string option \<Rightarrow> string option \<Rightarrow> suggestion list" where
  "generateFallbackOutfits items occ sea =
     (let tops = filter (\<lambda>i. type i = ''TOP'') items;
          bottoms = filter (\<lambda>i. type i = ''BOTTOM'') items;
          dresses = filter (\<lambda>i. type i = ''DRESS'') items;
          outerwear = filter (\<lambda>i. type i = ''OUTERWEAR'') items;
          outfits1 =
            (if length tops > 0 \<and> length bottoms > 0
             then [\<lparr>outfit_name = [],
                    description = ''A comfortable and versatile everyday outfit'',
                    itemIds = [item_id (tops ! 0), item_id (bottoms ! 0)] @
                              (if length outerwear > 0 then [item_id (outerwear ! 0)] else []),
                    reasoning = ''Simple combination that works for most casual occasions''\<rparr>]
             else []);
          outfits2 =
            (if length dresses > 0
             then [\<lparr>outfit_name = [],
                    description = ''A simple one-piece outfit'',
                    itemIds = [item_id (dresses ! 0)],
                    reasoning = ''Effortless style with minimal coordination needed''\<rparr>]
             else []);
          outfits3 =
            (if length tops > 1 \<and> length bottoms > 1
             then [\<lparr>outfit_name = [],
                    description = ''A different combination from your wardrobe'',
                    itemIds =
                      [if item_id (tops ! 1) \<noteq> [] then item_id (tops ! 1) else item_id (tops ! 0),
                       if item_id (bottoms ! 1) \<noteq> [] then item_id (bottoms ! 1)
                       else item_id (bottoms ! 0)],
                    reasoning = ''Mixing different pieces for variety''\<rparr>]
             else [])
      in take 3 (outfits1 @ outfits2 @ outfits3))"

section \<open>Outfit suggestion: validating the AI's proposals\<close>

text \<open>
  One element of the JSON array the model answered, before the handler fills the
  missing keys in (\<open>outfit.name || ''\<close>, \<open>Array.isArray(outfit.itemIds) ? ... : []\<close>).
  The ids are already coerced by \<open>String\<close>.
\<close>

record raw_outfit =
  r_name :: "string option"
  r_description :: "string option"
  r_itemIds :: "string list option"
  r_reasoning :: "string option"

text \<open>
  What \<open>openai.generateText\<close> and the parsing \<open>try\<close> block come to: the call throws;
  the text holds no JSON array (the inner \<open>catch\<close>); or it parses to an array.
\<close>

datatype ai_reply = AI_throws | AI_unparseable | AI_array "raw_outfit list"

definition or_empty :: "string option \<Rightarrow> string" where
  "or_empty v = (case v of None \<Rightarrow> [] | Some s \<Rightarrow> s)"

definition normalise_outfit :: "raw_outfit \<Rightarrow> suggestion" where
  "normalise_outfit outfit =
     \<lparr>outfit_name = or_empty (r_name outfit),
      description = or_empty (r_description outfit),
      itemIds = (case r_itemIds outfit of None \<Rightarrow> [] | Some ids \<Rightarrow> ids),
      reasoning = or_empty (r_reasoning outfit)\<rparr>"

text \<open>
  \<open>validatedSuggestions\<close>: ids that are not ids of the eligible items are filtered out
  of every proposal, then the proposals without ids are dropped.
\<close>

definition validItemIds :: "Item list \<Rightarrow> string list" where
  "validItemIds items = map item_id items"

definition validate_suggestions :: "Item list \<Rightarrow> suggestion list \<Rightarrow> suggestion list" where
  "validate_suggestions items outfitSuggestions =
     filter (\<lambda>outfit. length (itemIds outfit) > 0)
       (map (\<lambda>outfit. outfit\<lparr>itemIds :=
               filter (\<lambda>itemId. itemId \<in> set (validItemIds items)) (itemIds outfit)\<rparr>)
          outfitSuggestions)"

text \<open>
  The test of the supplement loop:
  \<open>sIds.length === fIds.length && sIds.every((v, i) => v === fIds[i])\<close>.
\<close>

definition same_itemIds :: "string list \<Rightarrow> string list \<Rightarrow> bool" where
  "same_itemIds sIds fIds =
     (length sIds = length fIds \<and> list_all (\<lambda>(v, w). v = w) (zip sIds fIds))"

text \<open>
  The loop \<open>for (const f of fallback)\<close>: a fallback outfit is pushed unless a suggestion
  with the same \<open>itemIds\<close> exists, and the loop breaks at three suggestions.
\<close>

fun supplement :: "suggestion list \<Rightarrow> suggestion list \<Rightarrow> suggestion list" where
  "supplement validated [] = validated"
| "supplement validated (f # fs) =
     (let exists = list_ex (\<lambda>s. same_itemIds (itemIds s) (itemIds f)) validated;
          validated' = (if \<not> exists then validated @ [f] else validated)
      in if length validated' \<ge> 3 then validated' else supplement validated' fs)"

definition final_suggestions ::
  "Item list \<Rightarrow> string option \<Rightarrow> string option \<Rightarrow> suggestion list \<Rightarrow> suggestion list" where
  "final_suggestions items occ sea outfitSuggestions =
     (let validated = validate_suggestions items outfitSuggestions;
          validated' =
            (if length validated < 3
             then supplement validated (generateFallbackOutfits items occ sea)
             else validated)
      in take 3 validated')"

record suggest_body =
  b_userId :: "string option"
  b_occasion :: "string option"
  b_season :: "string option"
  b_weather :: "string option"
  b_style :: "string option"

record suggest_response =
  success :: bool
  suggestions :: "suggestion list"
  fallback :: bool

text \<open>
  \<open>POST\<close> of \<open>outfits/suggest/route.ts\<close>. \<open>openAIAvailable\<close> is the outcome of the
  client and key check; \<open>ai\<close> is what the model call and the parsing come to. The
  response without a \<open>fallback\<close> key is \<open>fallback = False\<close>.
\<close>

definition POST_suggest ::
  "request \<Rightarrow> suggest_body \<Rightarrow> bool \<Rightarrow> ai_reply \<Rightarrow> db \<Rightarrow> http_error + suggest_response" where
  "POST_suggest req b openAIAvailable ai d =
     (case getAuthenticatedUserId req of
        None \<Rightarrow> Inl (401, ''Unauthorized'')
      | Some authenticatedUserId \<Rightarrow>
        if authenticatedUserId = [] then Inl (401, ''Unauthorized'')
        else if or_empty (b_userId b) = [] \<or> or_empty (b_userId b) \<noteq> authenticatedUserId
        then Inl (400, ''User ID is required and must match authenticated user'')
        else
          (let items = filter (\<lambda>x. userId x = or_empty (b_userId b) \<and>
                                      laundryStatus x = ''IN_WARDROBE'') (db_items d)
           in if length items < 2
              then Inl (400, ''Not enough items available in wardrobe for a suggestion.'')
              else if \<not> openAIAvailable
              then Inr \<lparr>success = True,
                        suggestions = generateFallbackOutfits items (b_occasion b) (b_season b),
                        fallback = True\<rparr>
              else
                (case ai of
                   AI_throws \<Rightarrow>
                     Inr \<lparr>success = True,
                          suggestions = generateFallbackOutfits items (b_occasion b) (b_season b),
                          fallback = True\<rparr>
                 | AI_unparseable \<Rightarrow>
                     Inr \<lparr>success = True,
                          suggestions = final_suggestions items (b_occasion b) (b_season b)
                            (generateFallbackOutfits items (b_occasion b) (b_season b)),
                          fallback = False\<rparr>
                 | AI_array raws \<Rightarrow>
                     Inr \<lparr>success = True,
                          suggestions = final_suggestions items (b_occasion b) (b_season b)
                            (map normalise_outfit raws),
                          fallback = False\<rparr>)))"

subsection \<open>Properties of the supplemented list\<close>



subsection \<open>Example data\<close>

definition example_item :: "string \<Rightarrow> string \<Rightarrow> string \<Rightarrow> Item" where
  "example_item i u t =
     \<lparr>item_id = i, userId = u, name = ''Untitled Item'', filename = ''f.jpg'',
      objectUrl = ''/uploads/f.jpg'', thumbnailUrl = Some ''/uploads/thumb-f.jpg'',
      processedUrl = Some ''/uploads/f.jpg'', colors = [''Unknown''], type = t,
      occasion = ''CASUAL'', season = ''ALL_SEASON'', laundryStatus = ''IN_WARDROBE'',
      usageCount = 0, isFavorite = False, createdAt = 0, updatedAt = 0\<rparr>"


definition three_items :: "Item list" where
  "three_items = [example_item ''a'' ''u1'' ''TOP'', example_item ''b'' ''u1'' ''BOTTOM'',
     example_item ''c'' ''u1'' ''DRESS'']"



section \<open>The item repository\<close>

definition findById :: "Item list \<Rightarrow> string \<Rightarrow> Item option" where
  "findById its i = find (\<lambda>x. item_id x = i) its"

text \<open>
  \<open>Item.findByIdAndUpdate(id, update, { new: true })\<close>: the first document with that
  id is updated and returned; \<open>null\<close> when there is none. \<open>f\<close> is the update the
  handler asks for and \<open>ts\<close> the time of the call: with the schema's timestamps every
  such update also sets \<open>updatedAt\<close> to that time, also when \<open>f\<close> changes nothing.
\<close>

fun findByIdAndUpdate ::
  "string \<Rightarrow> (Item \<Rightarrow> Item) \<Rightarrow> nat \<Rightarrow> Item list \<Rightarrow> Item option \<times> Item list" where
  "findByIdAndUpdate i f ts [] = (None, [])"
| "findByIdAndUpdate i f ts (x # xs) =
     (if item_id x = i then (Some ((f x)\<lparr>updatedAt := ts\<rparr>), (f x)\<lparr>updatedAt := ts\<rparr> # xs)
      else (case findByIdAndUpdate i f ts xs of (r, ys) \<Rightarrow> (r, x # ys)))"

fun findByIdAndDelete :: "string \<Rightarrow> Item list \<Rightarrow> Item list" where
  "findByIdAndDelete i [] = []"
| "findByIdAndDelete i (x # xs) = (if item_id x = i then xs else x # findByIdAndDelete i xs)"

text \<open>JavaScript's \<open>String(n)\<close> on an integer, and \<open>toUpperCase\<close> on ASCII text.\<close>

fun string_of_nat :: "nat \<Rightarrow> string" where
  "string_of_nat n =
     (if n < 10 then [char_of (48 + n)]
      else string_of_nat (n div 10) @ [char_of (48 + n mod 10)])"

definition string_of_int :: "int \<Rightarrow> string" where
  "string_of_int k = (if k < 0 then CHR ''-'' # string_of_nat (nat (- k)) else string_of_nat (nat k))"

definition upper_char :: "char \<Rightarrow> char" where
  "upper_char c =
     (let n = (of_char c :: nat) in if 97 \<le> n \<and> n \<le> 122 then char_of (n - 32) else c)"

definition toUpperCase :: "string \<Rightarrow> string" where
  "toUpperCase s = map upper_char s"

subsection \<open>Laundry actions\<close>

text \<open>
  The \<open>switch (action)\<close> of both laundry handlers: the new status and the history
  action, or the \<open>default\<close> branch. \<open>None\<close> as the action is a body without a string
  \<open>action\<close>.
\<close>

definition laundry_switch :: "string option \<Rightarrow> (string \<times> string) option" where
  "laundry_switch action =
     (if action = Some ''mark_laundry'' then Some (''IN_LAUNDRY'', ''MARKED_LAUNDRY'')
      else if action = Some ''mark_clean'' then Some (''CLEAN'', ''RETURNED'')
      else if action = Some ''mark_worn'' then Some (''IN_WARDROBE'', ''WORN'')
      else if action = Some ''mark_away'' then Some (''AWAY'', ''EDITED'')
      else None)"

text \<open>
  The laundry handler of \<open>part_015\<close> (route parameters awaited): one update sets the
  status and, for \<open>mark_worn\<close> and \<open>mark_laundry\<close>, increments \<open>usageCount\<close>.
  \<open>ts\<close> is the time of that update.
\<close>

definition POST_laundry_015 ::
  "request \<Rightarrow> string option \<Rightarrow> string \<Rightarrow> nat \<Rightarrow> db \<Rightarrow> (http_error + Item) \<times> db" where
  "POST_laundry_015 req action i ts d =
     (case getAuthenticatedUserId req of
        None \<Rightarrow> (Inl (401, ''Unauthorized''), d)
      | Some authenticatedUserId \<Rightarrow>
        if authenticatedUserId = [] then (Inl (401, ''Unauthorized''), d)
        else
          (case findById (db_items d) i of
             None \<Rightarrow> (Inl (404, ''Item not found''), d)
           | Some existingItem \<Rightarrow>
             if userId existingItem \<noteq> authenticatedUserId then (Inl (403, ''Forbidden''), d)
             else
               (case laundry_switch action of
                  None \<Rightarrow> (Inl (400, ''Invalid action''), d)
                | Some (newStatus, historyAction) \<Rightarrow>
                  let worn = (action = Some ''mark_worn'' \<or> action = Some ''mark_laundry'');
                      upd = (\<lambda>x. x\<lparr>laundryStatus := newStatus,
                                     usageCount := (if worn then usageCount x + 1 else usageCount x)\<rparr>)
                  in (case findByIdAndUpdate i upd ts (db_items d) of
                        (None, its) \<Rightarrow>
                          (Inl (500, ''Failed to update laundry status''), d\<lparr>db_items := its\<rparr>)
                      | (Some item, its) \<Rightarrow>
                          (Inr item,
                           d\<lparr>db_items := its,
                             db_history := db_history d @
                               [\<lparr>h_itemId = i, h_action = historyAction,
                                 h_performedBy = authenticatedUserId,
                                 h_notes =
                                   (if worn
                                    then ''Item marked as worn / moved to laundry. Usage count: '' @
                                         string_of_int (usageCount item)
                                    else ''Status changed to '' @ newStatus)\<rparr>],
                             db_audit := db_audit d @
                               [\<lparr>a_userId = authenticatedUserId,
                                 a_action = ''LAUNDRY_'' @ toUpperCase (case action of None \<Rightarrow> [] | Some a \<Rightarrow> a),
                                 a_payload = JObject [(''itemId'', JString i),
                                   (''newStatus'', JString newStatus),
                                   (''usageCount'', JNumber (usageCount item))],
                                 a_ipAddress = ipAddress_of req\<rparr>]\<rparr>)))))"

text \<open>
  The laundry handler of \<open>part_003\<close>: \<open>mark_worn\<close> increments \<open>usageCount\<close> inside
  its \<open>case\<close>, an update of its own at the time \<open>ts_inc\<close>; then the status is set for
  every action, by the update at the time \<open>ts\<close>.
\<close>

definition POST_laundry_003 ::
  "request \<Rightarrow> string option \<Rightarrow> string \<Rightarrow> nat \<Rightarrow> nat \<Rightarrow> db \<Rightarrow> (http_error + Item option) \<times> db" where
  "POST_laundry_003 req action i ts_inc ts d =
     (case getAuthenticatedUserId req of
        None \<Rightarrow> (Inl (401, ''Unauthorized''), d)
      | Some authenticatedUserId \<Rightarrow>
        if authenticatedUserId = [] then (Inl (401, ''Unauthorized''), d)
        else
          (case findById (db_items d) i of
             None \<Rightarrow> (Inl (404, ''Item not found''), d)
           | Some existingItem \<Rightarrow>
             if userId existingItem \<noteq> authenticatedUserId then (Inl (403, ''Forbidden''), d)
             else
               (case laundry_switch action of
                  None \<Rightarrow> (Inl (400, ''Invalid action''), d)
                | Some (newStatus, historyAction) \<Rightarrow>
                  let its1 =
                        (if action = Some ''mark_worn''
                         then snd (findByIdAndUpdate i (\<lambda>x. x\<lparr>usageCount := usageCount x + 1\<rparr>)
                                     ts_inc (db_items d))
                         else db_items d)
                  in (case findByIdAndUpdate i (\<lambda>x. x\<lparr>laundryStatus := newStatus\<rparr>) ts its1 of
                        (item, its) \<Rightarrow>
                          (Inr item,
                           d\<lparr>db_items := its,
                             db_history := db_history d @
                               [\<lparr>h_itemId = i, h_action = historyAction,
                                 h_performedBy = authenticatedUserId,
                                 h_notes = ''Status changed to '' @ newStatus\<rparr>],
                             db_audit := db_audit d @
                               [\<lparr>a_userId = authenticatedUserId,
                                 a_action = ''LAUNDRY_'' @ toUpperCase (case action of None \<Rightarrow> [] | Some a \<Rightarrow> a),
                                 a_payload = JObject [(''itemId'', JString i),
                                   (''newStatus'', JString newStatus)],
                                 a_ipAddress = ipAddress_of req\<rparr>]\<rparr>)))))"

subsection \<open>Update, delete and read of one item\<close>

text \<open>
  The JSON body of an update. The handler destructures \<open>name\<close>, \<open>colors\<close>, \<open>type\<close>,
  \<open>occasion\<close>, \<open>season\<close>, \<open>isFavorite\<close> (and \<open>occasions\<close> in \<open>part_014\<close>); a key
  that is absent is \<open>None\<close>. \<open>u_usageCount\<close> and \<open>u_laundryStatus\<close> stand for keys a
  client may send and the handler never reads.
\<close>

record update_body =
  u_name :: "string option"
  u_colors :: "string list option"
  u_type :: "string option"
  u_occasion :: "string option"
  u_occasions :: "string list option"
  u_season :: "string option"
  u_isFavorite :: "bool option"
  u_usageCount :: "int option"
  u_laundryStatus :: "string option"

text \<open>\<open>String.prototype.trim\<close> on ASCII text; the schema's \<open>trim: true\<close> setter uses it.\<close>

definition is_space :: "char \<Rightarrow> bool" where
  "is_space c = (let n = (of_char c :: nat) in (9 \<le> n \<and> n \<le> 13) \<or> n = 32)"

definition trim :: "string \<Rightarrow> string" where
  "trim s = rev (dropWhile is_space (rev (dropWhile is_space s)))"

text \<open>
  \<open>updateData\<close> applied to a document: exactly the keys the handler copied. The schema
  has no \<open>occasions\<close> path, so that key of \<open>part_014\<close> changes no field of the model.
\<close>

definition updateData :: "update_body \<Rightarrow> Item \<Rightarrow> Item" where
  "updateData b x =
     x\<lparr>name := (case u_name b of None \<Rightarrow> name x | Some v \<Rightarrow> trim v),
       colors := (case u_colors b of None \<Rightarrow> colors x | Some v \<Rightarrow> map trim v),
       type := (case u_type b of None \<Rightarrow> type x | Some v \<Rightarrow> v),
       occasion := (case u_occasion b of None \<Rightarrow> occasion x | Some v \<Rightarrow> v),
       season := (case u_season b of None \<Rightarrow> season x | Some v \<Rightarrow> v),
       isFavorite := (case u_isFavorite b of None \<Rightarrow> isFavorite x | Some v \<Rightarrow> v)\<rparr>"

definition changes_json :: "bool \<Rightarrow> update_body \<Rightarrow> (string \<times> json) list" where
  "changes_json with_occasions b =
     (case u_name b of None \<Rightarrow> [] | Some v \<Rightarrow> [(''name'', JString v)]) @
     (case u_colors b of None \<Rightarrow> [] | Some v \<Rightarrow> [(''colors'', JStrings v)]) @
     (case u_type b of None \<Rightarrow> [] | Some v \<Rightarrow> [(''type'', JString v)]) @
     (case u_occasion b of None \<Rightarrow> [] | Some v \<Rightarrow> [(''occasion'', JString v)]) @
     (case u_season b of None \<Rightarrow> [] | Some v \<Rightarrow> [(''season'', JString v)]) @
     (case u_isFavorite b of None \<Rightarrow> [] | Some v \<Rightarrow> [(''isFavorite'', JBool v)]) @
     (if with_occasions
      then (case u_occasions b of None \<Rightarrow> [] | Some v \<Rightarrow> [(''occasions'', JStrings v)])
      else [])"

text \<open>
  \<open>PUT\<close> of \<open>items/[id]/route.ts\<close> and of \<open>part_014\<close>. They differ in the
  \<open>occasions\<close> key only, which is the flag \<open>with_occasions\<close>. \<open>ts\<close> is the time of
  the update.
\<close>

definition PUT_item ::
  "bool \<Rightarrow> request \<Rightarrow> update_body \<Rightarrow> string \<Rightarrow> nat \<Rightarrow> db \<Rightarrow> (http_error + Item option) \<times> db" where
  "PUT_item with_occasions req b i ts d =
     (case getAuthenticatedUserId req of
        None \<Rightarrow> (Inl (401, ''Unauthorized''), d)
      | Some authenticatedUserId \<Rightarrow>
        if authenticatedUserId = [] then (Inl (401, ''Unauthorized''), d)
        else
          (case findById (db_items d) i of
             None \<Rightarrow> (Inl (404, ''Item not found''), d)
           | Some existingItem \<Rightarrow>
             if userId existingItem \<noteq> authenticatedUserId then (Inl (403, ''Forbidden''), d)
             else
               (case findByIdAndUpdate i (updateData b) ts (db_items d) of
                  (item, its) \<Rightarrow>
                    (Inr item,
                     d\<lparr>db_items := its,
                       db_history := db_history d @
                         [\<lparr>h_itemId = i, h_action = ''EDITED'',
                           h_performedBy = authenticatedUserId, h_notes = ''Item updated''\<rparr>],
                       db_audit := db_audit d @
                         [\<lparr>a_userId = authenticatedUserId, a_action = ''UPDATE_ITEM'',
                           a_payload = JObject [(''itemId'', JString i),
                             (''changes'', JObject (changes_json with_occasions b))],
                           a_ipAddress = ipAddress_of req\<rparr>]\<rparr>))))"

definition PUT_item_route ::
  "request \<Rightarrow> update_body \<Rightarrow> string \<Rightarrow> nat \<Rightarrow> db \<Rightarrow> (http_error + Item option) \<times> db" where
  "PUT_item_route = PUT_item False"

definition PUT_item_014 ::
  "request \<Rightarrow> update_body \<Rightarrow> string \<Rightarrow> nat \<Rightarrow> db \<Rightarrow> (http_error + Item option) \<times> db" where
  "PUT_item_014 = PUT_item True"

text \<open>
  \<open>DELETE\<close> of \<open>items/[id]/route.ts\<close>: the document is removed, a \<open>DELETED\<close>
  history entry and an audit entry are written.
\<close>

definition DELETE_item_route :: "request \<Rightarrow> string \<Rightarrow> db \<Rightarrow> (http_error + string) \<times> db" where
  "DELETE_item_route req i d =
     (case getAuthenticatedUserId req of
        None \<Rightarrow> (Inl (401, ''Unauthorized''), d)
      | Some authenticatedUserId \<Rightarrow>
        if authenticatedUserId = [] then (Inl (401, ''Unauthorized''), d)
        else
          (case findById (db_items d) i of
             None \<Rightarrow> (Inl (404, ''Item not found''), d)
           | Some existingItem \<Rightarrow>
             if userId existingItem \<noteq> authenticatedUserId then (Inl (403, ''Forbidden''), d)
             else
               (Inr ''Item deleted successfully'',
                d\<lparr>db_items := findByIdAndDelete i (db_items d),
                  db_history := db_history d @
                    [\<lparr>h_itemId = i, h_action = ''DELETED'',
                      h_performedBy = authenticatedUserId, h_notes = ''Item deleted''\<rparr>],
                  db_audit := db_audit d @
                    [\<lparr>a_userId = authenticatedUserId, a_action = ''DELETE_ITEM'',
                      a_payload = JObject [(''itemId'', JString i)],
                      a_ipAddress = ipAddress_of req\<rparr>]\<rparr>)))"

text \<open>
  \<open>DELETE\<close> of \<open>part_014\<close>: the document and its history entries are removed and an
  audit entry is written. (The files it unlinks are outside the model.)
\<close>

definition DELETE_item_014 :: "request \<Rightarrow> string \<Rightarrow> db \<Rightarrow> (http_error + string) \<times> db" where
  "DELETE_item_014 req i d =
     (case getAuthenticatedUserId req of
        None \<Rightarrow> (Inl (401, ''Unauthorized''), d)
      | Some authenticatedUserId \<Rightarrow>
        if authenticatedUserId = [] then (Inl (401, ''Unauthorized''), d)
        else
          (case findById (db_items d) i of
             None \<Rightarrow> (Inl (404, ''Item not found''), d)
           | Some existingItem \<Rightarrow>
             if userId existingItem \<noteq> authenticatedUserId then (Inl (403, ''Forbidden''), d)
             else
               (Inr ''Item deleted successfully'',
                d\<lparr>db_items := findByIdAndDelete i (db_items d),
                  db_history := filter (\<lambda>h. h_itemId h \<noteq> i) (db_history d),
                  db_audit := db_audit d @
                    [\<lparr>a_userId = authenticatedUserId, a_action = ''DELETE_ITEM'',
                      a_payload = JObject [(''itemId'', JString i),
                        (''filename'', JString (filename existingItem))],
                      a_ipAddress = ipAddress_of req\<rparr>]\<rparr>)))"


subsection \<open>Sequences of operations on the repository\<close>

text \<open>
  The operations of the API that act on an existing item: the laundry actions of both
  handlers and the update of both handlers (a favorite toggle is an update whose body
  has \<open>isFavorite\<close>), each with the times of its updates. \<open>run_ops\<close> applies a
  sequence of them, by any callers, to the database.
\<close>

datatype api_op =
    Laundry_015 request "string option" string nat
  | Laundry_003 request "string option" string nat nat
  | Put_route request update_body string nat
  | Put_014 request update_body string nat

fun api_step :: "api_op \<Rightarrow> db \<Rightarrow> db" where
  "api_step (Laundry_015 req action i ts) d = snd (POST_laundry_015 req action i ts d)"
| "api_step (Laundry_003 req action i ts_inc ts) d = snd (POST_laundry_003 req action i ts_inc ts d)"
| "api_step (Put_route req b i ts) d = snd (PUT_item_route req b i ts d)"
| "api_step (Put_014 req b i ts) d = snd (PUT_item_014 req b i ts d)"

fun run_ops :: "api_op list \<Rightarrow> db \<Rightarrow> db" where
  "run_ops [] d = d"
| "run_ops (x # xs) d = run_ops xs (api_step x d)"

subsection \<open>What a laundry action leaves behind\<close>

text \<open>
  \<open>laundry_015_sets req a i ts d x'\<close>: the handler answers the action \<open>a\<close> on the
  item \<open>i\<close> at the time \<open>ts\<close> with the document \<open>x'\<close>, and \<open>x'\<close> is what the
  database then holds under \<open>i\<close>. \<open>laundry_003_sets\<close> is the same for the other
  handler.
\<close>

definition laundry_015_sets :: "request \<Rightarrow> string \<Rightarrow> string \<Rightarrow> nat \<Rightarrow> db \<Rightarrow> Item \<Rightarrow> bool" where
  "laundry_015_sets req a i ts d x' =
     (fst (POST_laundry_015 req (Some a) i ts d) = Inr x' \<and>
      findById (db_items (snd (POST_laundry_015 req (Some a) i ts d))) i = Some x')"

definition laundry_003_sets ::
  "request \<Rightarrow> string \<Rightarrow> string \<Rightarrow> nat \<Rightarrow> nat \<Rightarrow> db \<Rightarrow> Item \<Rightarrow> bool" where
  "laundry_003_sets req a i ts_inc ts d x' =
     (fst (POST_laundry_003 req (Some a) i ts_inc ts d) = Inr (Some x') \<and>
      findById (db_items (snd (POST_laundry_003 req (Some a) i ts_inc ts d))) i = Some x')"

subsection \<open>Example requests and databases\<close>

definition example_db :: db where
  "example_db = \<lparr>db_items = [example_item ''i1'' ''u1'' ''TOP'', example_item ''i2'' ''u2'' ''DRESS''],
     db_history = [], db_audit = [], db_users = [''u1'', ''u2'']\<rparr>"

definition example_req :: "string \<Rightarrow> request" where
  "example_req u = \<lparr>x_user_id = Some u, x_forwarded_for = None\<rparr>"

definition example_body :: update_body where
  "example_body = \<lparr>u_name = Some '' Blue jeans '', u_colors = None, u_type = None, u_occasion = None,
     u_occasions = None, u_season = None, u_isFavorite = Some True, u_usageCount = Some (- 5),
     u_laundryStatus = None\<rparr>"

definition example_ops :: "api_op list" where
  "example_ops = [Laundry_015 (example_req ''u1'') (Some ''mark_laundry'') ''i1'' 10,
     Put_014 (example_req ''u1'') example_body ''i1'' 20,
     Laundry_003 (example_req ''u1'') (Some ''mark_worn'') ''i1'' 30 31,
     Laundry_003 (example_req ''u2'') (Some ''mark_worn'') ''i1'' 40 41,
     Put_route (example_req ''u1'') example_body ''i1'' 50]"

definition in_laundry_db :: db where
  "in_laundry_db = \<lparr>db_items = [(example_item ''i1'' ''u1'' ''TOP'')\<lparr>laundryStatus := ''IN_LAUNDRY''\<rparr>],
     db_history = [], db_audit = [], db_users = [''u1'']\<rparr>"

section \<open>AI provider adapters: the network call\<close>

text \<open>
  What \<open>fetch\<close> gives back: a response, of which the wrappers read the status and (for
  an error message) the body text, or a transport-level exception. \<open>body = None\<close> is a
  body that cannot be read.
\<close>

record response =
  status :: nat
  body :: "string option"

datatype fetch_outcome = Fetch_throws string | Fetch_response response

text \<open>\<open>response.ok\<close>: the status is in the range 200 to 299.\<close>

definition ok :: "response \<Rightarrow> bool" where
  "ok r = (200 \<le> status r \<and> status r \<le> 299)"

definition safeText :: "response \<Rightarrow> string" where
  "safeText res = (case body res of None \<Rightarrow> ''<unable to read body>'' | Some t \<Rightarrow> t)"

text \<open>
  The result of a wrapped call: the exception thrown (\<open>Inl\<close>) or the response returned
  (\<open>Inr\<close>), and the delays, in milliseconds, waited between the attempts, in order. The
  number of \<open>fetch\<close> calls made is one more than the number of delays.
\<close>

type_synonym fetch_result = "(string + response) \<times> nat list"

definition after_delay :: "nat \<Rightarrow> fetch_result \<Rightarrow> fetch_result" where
  "after_delay delay r = (fst r, delay # snd r)"

text \<open>
  \<open>fetchWithBackoff\<close> of the Gemini adapters (\<open>gemini.ts\<close> and \<open>part_016\<close>, the same
  text). \<open>fetch k\<close> is the outcome of the \<open>k\<close>-th call of \<open>fetch\<close>. The \<open>throw\<close> of the
  exhausted 5xx/429 branch is inside the \<open>try\<close> and is rethrown by the \<open>catch\<close>, whose
  \<open>retries > 0\<close> is false there.
\<close>

fun fetchWithBackoff :: "(nat \<Rightarrow> fetch_outcome) \<Rightarrow> nat \<Rightarrow> nat \<Rightarrow> nat \<Rightarrow> fetch_result" where
  "fetchWithBackoff fetch k 0 delay =
     (case fetch k of
        Fetch_throws err \<Rightarrow> (Inl err, [])
      | Fetch_response response \<Rightarrow>
          if \<not> ok response then
            if status response \<ge> 500 \<or> status response = 429
            then (Inl (''HTTP '' @ string_of_nat (status response) @ '': '' @ safeText response), [])
            else (Inr response, [])
          else (Inr response, []))"
| "fetchWithBackoff fetch k (Suc retries) delay =
     (case fetch k of
        Fetch_throws err \<Rightarrow>
          after_delay delay (fetchWithBackoff fetch (k + 1) retries (delay * 2))
      | Fetch_response response \<Rightarrow>
          if \<not> ok response then
            if status response \<ge> 500 \<or> status response = 429
            then after_delay delay (fetchWithBackoff fetch (k + 1) retries (delay * 2))
            else (Inr response, [])
          else (Inr response, []))"

text \<open>
  \<open>fetchWithRetry\<close> of the OpenAI and HuggingFace adapters (the same text): an exhausted
  5xx/429 response is returned, not thrown.
\<close>

fun fetchWithRetry :: "(nat \<Rightarrow> fetch_outcome) \<Rightarrow> nat \<Rightarrow> nat \<Rightarrow> nat \<Rightarrow> fetch_result" where
  "fetchWithRetry fetch k 0 delay =
     (case fetch k of
        Fetch_throws err \<Rightarrow> (Inl err, [])
      | Fetch_response response \<Rightarrow> (Inr response, []))"
| "fetchWithRetry fetch k (Suc retries) delay =
     (case fetch k of
        Fetch_throws err \<Rightarrow>
          after_delay delay (fetchWithRetry fetch (k + 1) retries (delay * 2))
      | Fetch_response response \<Rightarrow>
          if \<not> ok response \<and> (status response \<ge> 500 \<or> status response = 429)
          then after_delay delay (fetchWithRetry fetch (k + 1) retries (delay * 2))
          else (Inr response, []))"

text \<open>An outcome that both wrappers retry while retries are left.\<close>

definition retriable :: "fetch_outcome \<Rightarrow> bool" where
  "retriable out = (case out of Fetch_throws err \<Rightarrow> True
     | Fetch_response r \<Rightarrow> status r \<ge> 500 \<or> status r = 429)"

text \<open>The delays of \<open>n\<close> retries in a row: each the double of the one before.\<close>

fun doubling :: "nat \<Rightarrow> nat \<Rightarrow> nat list" where
  "doubling delay 0 = []"
| "doubling delay (Suc n) = delay # doubling (delay * 2) n"

text \<open>
  The adapters call the wrappers with the default arguments only: 5 retries from 1000 ms
  in \<open>fetchWithBackoff\<close>, 3 retries from 1000 ms in \<open>fetchWithRetry\<close>.
\<close>

definition fetchWithBackoff_default :: "(nat \<Rightarrow> fetch_outcome) \<Rightarrow> fetch_result" where
  "fetchWithBackoff_default fetch = fetchWithBackoff fetch 0 5 1000"

definition fetchWithRetry_default :: "(nat \<Rightarrow> fetch_outcome) \<Rightarrow> fetch_result" where
  "fetchWithRetry_default fetch = fetchWithRetry fetch 0 3 1000"

text \<open>Two example services.\<close>

definition busy_twice :: "nat \<Rightarrow> fetch_outcome" where
  "busy_twice j = (if j = 0 then Fetch_response \<lparr>status = 503, body = None\<rparr>
     else if j = 1 then Fetch_response \<lparr>status = 429, body = None\<rparr>
     else if j = 2 then Fetch_response \<lparr>status = 404, body = Some ''no such model''\<rparr>
     else Fetch_response \<lparr>status = 200, body = Some ''{}''\<rparr>)"

definition always_down :: "nat \<Rightarrow> fetch_outcome" where
  "always_down j = Fetch_throws ''ECONNREFUSED''"

section \<open>Creating items\<close>

text \<open>JavaScript's truthiness of an optional string, and \<open>v || dflt\<close>.\<close>

definition truthy :: "string option \<Rightarrow> bool" where
  "truthy v = (case v of None \<Rightarrow> False | Some s \<Rightarrow> s \<noteq> [])"

definition or_else :: "string option \<Rightarrow> string \<Rightarrow> string" where
  "or_else v dflt = (case v of None \<Rightarrow> dflt | Some s \<Rightarrow> if s = [] then dflt else s)"

text \<open>
  The validators of \<open>itemSchema\<close> that \<open>save\<close> runs: the required paths and the
  enumerations. (That \<open>userId\<close> casts to an ObjectId is outside the model.)
\<close>

definition item_schema_valid :: "Item \<Rightarrow> bool" where
  "item_schema_valid x =
     (userId x \<noteq> [] \<and> name x \<noteq> [] \<and> filename x \<noteq> [] \<and> objectUrl x \<noteq> []
      \<and> truthy (thumbnailUrl x)
      \<and> type x \<in> set [''TOP'', ''BOTTOM'', ''DRESS'', ''OUTERWEAR'', ''SHOES'', ''ACCESSORY'',
                        ''UNDERWEAR'', ''SWIMWEAR'', ''SPORTSWEAR'']
      \<and> occasion x \<in> set [''CASUAL'', ''WORK'', ''FORMAL'', ''PARTY'', ''SPORTS'', ''BEACH'',
                            ''DATE_NIGHT'', ''TRAVEL'']
      \<and> season x \<in> set [''SPRING'', ''SUMMER'', ''FALL'', ''WINTER'', ''ALL_SEASON'']
      \<and> laundryStatus x \<in> set [''IN_WARDROBE'', ''IN_LAUNDRY'', ''CLEAN'', ''AWAY'']
      \<and> usageCount x \<ge> 0)"

text \<open>
  \<open>new Item({...})\<close> applies the schema's \<open>trim\<close> setters; \<open>save\<close> validates and
  inserts. The handlers below write the two stamps that \<open>save\<close> sets, the time of the
  \<open>save\<close>, into the document they build.
\<close>

definition new_Item :: "Item \<Rightarrow> Item" where
  "new_Item x = x\<lparr>name := trim (name x), colors := map trim (colors x)\<rparr>"

definition save :: "Item \<Rightarrow> db \<Rightarrow> db option" where
  "save x d = (if item_schema_valid x then Some (d\<lparr>db_items := db_items d @ [x]\<rparr>) else None)"

text \<open>
  The JSON body of a direct create. \<open>c_usageCount\<close>, \<open>c_isFavorite\<close> and
  \<open>c_laundryStatus\<close> stand for keys a client may send and the handler never reads.
\<close>

record create_body =
  c_userId :: "string option"
  c_name :: "string option"
  c_filename :: "string option"
  c_objectUrl :: "string option"
  c_thumbnailUrl :: "string option"
  c_processedUrl :: "string option"
  c_colors :: "string list option"
  c_type :: "string option"
  c_occasion :: "string option"
  c_season :: "string option"
  c_usageCount :: "int option"
  c_isFavorite :: "bool option"
  c_laundryStatus :: "string option"

text \<open>
  \<open>POST\<close> of \<open>part_014\<close> (direct create). \<open>nid\<close> is the id the database generates,
  \<open>ts\<close> the time of the \<open>save\<close>.
\<close>

definition POST_items_014 ::
  "request \<Rightarrow> create_body \<Rightarrow> string \<Rightarrow> nat \<Rightarrow> db \<Rightarrow> (http_error + Item) \<times> db" where
  "POST_items_014 req b nid ts d =
     (case getAuthenticatedUserId req of
        None \<Rightarrow> (Inl (401, ''Unauthorized''), d)
      | Some authenticatedUserId \<Rightarrow>
        if authenticatedUserId = [] then (Inl (401, ''Unauthorized''), d)
        else if truthy (c_userId b) \<and> c_userId b \<noteq> Some authenticatedUserId
        then (Inl (403, ''Forbidden''), d)
        else if \<not> truthy (c_userId b) \<or> \<not> truthy (c_filename b) \<or> \<not> truthy (c_objectUrl b)
                \<or> \<not> truthy (c_type b)
        then (Inl (400, ''Missing required fields''), d)
        else
          (let item = new_Item
                 \<lparr>item_id = nid, userId = authenticatedUserId,
                  name = or_else (c_name b) (or_empty (c_filename b)),
                  filename = or_empty (c_filename b), objectUrl = or_empty (c_objectUrl b),
                  thumbnailUrl = c_thumbnailUrl b, processedUrl = c_processedUrl b,
                  colors = (case c_colors b of None \<Rightarrow> [] | Some cs \<Rightarrow> cs),
                  type = or_empty (c_type b),
                  occasion = or_else (c_occasion b) ''CASUAL'',
                  season = or_else (c_season b) ''ALL_SEASON'',
                  laundryStatus = ''IN_WARDROBE'', usageCount = 0, isFavorite = False,
                  createdAt = ts, updatedAt = ts\<rparr>
           in case save item d of
                None \<Rightarrow> (Inl (500, ''Failed to create item''), d)
              | Some d1 \<Rightarrow>
                  (Inr item,
                   d1\<lparr>db_history := db_history d1 @
                        [\<lparr>h_itemId = nid, h_action = ''CREATED'',
                          h_performedBy = authenticatedUserId, h_notes = ''Item created''\<rparr>],
                      db_audit := db_audit d1 @
                        [\<lparr>a_userId = authenticatedUserId, a_action = ''CREATE_ITEM'',
                          a_payload = JObject [(''itemId'', JString nid)],
                          a_ipAddress = ipAddress_of req\<rparr>]\<rparr>)))"

text \<open>
  The multipart form of an upload. \<open>f_usageCount\<close> and \<open>f_isFavorite\<close> stand for
  fields a client may send and the handler never reads.
\<close>

record upload_file =
  file_name :: string
  file_type :: string

record upload_form =
  f_file :: "upload_file option"
  f_userId :: "string option"
  f_name :: "string option"
  f_type :: "string option"
  f_occasion :: "string option"
  f_season :: "string option"
  f_usageCount :: "string option"
  f_isFavorite :: "string option"

text \<open>
  Where the image went: the bucket (its two URLs), the local disk (also the fallback when
  the bucket fails), or the write threw.
\<close>

datatype storage_outcome = Stored_S3 string string | Stored_local | Storage_throws

text \<open>
  What \<open>analyzeImageWithOpenAI\<close> returned, read through the five keys the handler reads;
  \<open>None\<close> is \<open>null\<close>.
\<close>

record analysis =
  an_name :: "string option"
  an_type :: "string option"
  an_colors :: "string list option"
  an_occasion :: "string option"
  an_season :: "string option"

text \<open>
  The environment of one backend upload: the clock when the file name is made and when the
  document is saved, the storage, the AI and the new id.
\<close>

record upload_env =
  now :: nat
  saved_at :: nat
  storage :: storage_outcome
  aiAvailable :: bool
  analysisResult :: "analysis option"
  new_id :: string

record aiAnalysis =
  ai_colors :: "string list"
  ai_type :: "string option"
  ai_occasion :: string
  ai_season :: string
  ai_name :: string

record upload_response =
  r_item :: Item
  r_aiAnalysis :: aiAnalysis

text \<open>\<open>file.name.replace(/\s+/g, '-')\<close>: every run of white space becomes one dash.\<close>

fun replace_spaces_from :: "bool \<Rightarrow> string \<Rightarrow> string" where
  "replace_spaces_from in_run [] = []"
| "replace_spaces_from in_run (c # cs) =
     (if is_space c
      then (if in_run then replace_spaces_from True cs else CHR ''-'' # replace_spaces_from True cs)
      else c # replace_spaces_from False cs)"

definition replace_spaces :: "string \<Rightarrow> string" where
  "replace_spaces s = replace_spaces_from False s"

text \<open>
  \<open>detectedName\<close> of the backend upload: the provided name unless blank, else
  \<open>'Untitled Item'\<close>; replaced by the analysis' name when there is one.
\<close>

definition detectedName_backend :: "upload_env \<Rightarrow> upload_form \<Rightarrow> string" where
  "detectedName_backend env form =
     (let detectedName =
            (case f_name form of
               None \<Rightarrow> ''Untitled Item''
             | Some n \<Rightarrow> if length (trim n) > 0 then n else ''Untitled Item'')
      in if aiAvailable env
         then (case analysisResult env of
                 None \<Rightarrow> detectedName
               | Some a \<Rightarrow> or_else (an_name a) detectedName)
         else detectedName)"

text \<open>
  \<open>POST\<close> of \<open>backend/.../upload/route.ts\<close>. The response's \<open>item\<close> is the stored
  document with \<open>colors\<close> and \<open>name: ''\<close> written over it.
\<close>

definition POST_upload_backend ::
  "upload_env \<Rightarrow> upload_form \<Rightarrow> request \<Rightarrow> db \<Rightarrow> (http_error + upload_response) \<times> db" where
  "POST_upload_backend env form req d =
     (case f_file form of
        None \<Rightarrow> (Inl (400, ''Missing required fields: file and userId are required''), d)
      | Some file \<Rightarrow>
        if \<not> truthy (f_userId form)
        then (Inl (400, ''Missing required fields: file and userId are required''), d)
        else
          (let userId = or_empty (f_userId form);
               filename = string_of_nat (now env) @ ''-'' @ replace_spaces (file_name file)
           in case storage env of
                Storage_throws \<Rightarrow> (Inl (500, ''Failed to upload file''), d)
              | stored \<Rightarrow>
                (let objectUrl = (case stored of Stored_S3 url turl \<Rightarrow> url
                                  | _ \<Rightarrow> ''/uploads/'' @ filename);
                     thumbnailUrl = (case stored of Stored_S3 url turl \<Rightarrow> turl
                                     | _ \<Rightarrow> ''/uploads/thumb-'' @ filename);
                     processedUrl = objectUrl;
                     analysed = (if aiAvailable env then analysisResult env else None);
                     detectedName = detectedName_backend env form;
                     detectedType =
                       (case analysed of None \<Rightarrow> f_type form
                        | Some a \<Rightarrow> if truthy (an_type a) then an_type a else f_type form);
                     colors =
                       (case analysed of None \<Rightarrow> [''Unknown'']
                        | Some a \<Rightarrow> (case an_colors a of None \<Rightarrow> [''Unknown''] | Some cs \<Rightarrow> cs));
                     detectedOccasion =
                       (case analysed of None \<Rightarrow> or_else (f_occasion form) ''CASUAL''
                        | Some a \<Rightarrow> or_else (an_occasion a) (or_else (f_occasion form) ''CASUAL''));
                     detectedSeason =
                       (case analysed of None \<Rightarrow> or_else (f_season form) ''ALL_SEASON''
                        | Some a \<Rightarrow> or_else (an_season a) (or_else (f_season form) ''ALL_SEASON''));
                     item = new_Item
                       \<lparr>item_id = new_id env, userId = userId, name = detectedName,
                        filename = filename, objectUrl = objectUrl,
                        thumbnailUrl = Some thumbnailUrl, processedUrl = Some processedUrl,
                        colors = colors, type = or_empty detectedType,
                        occasion = detectedOccasion, season = detectedSeason,
                        laundryStatus = ''IN_WARDROBE'', usageCount = 0, isFavorite = False,
                        createdAt = saved_at env, updatedAt = saved_at env\<rparr>
                 in case save item d of
                      None \<Rightarrow> (Inl (500, ''Failed to upload file''), d)
                    | Some d1 \<Rightarrow>
                        (Inr \<lparr>r_item = item\<lparr>colors := colors, name := []\<rparr>,
                              r_aiAnalysis = \<lparr>ai_colors = colors, ai_type = detectedType,
                                ai_occasion = detectedOccasion, ai_season = detectedSeason,
                                ai_name = []\<rparr>\<rparr>,
                         d1\<lparr>db_history := db_history d1 @
                              [\<lparr>h_itemId = new_id env, h_action = ''CREATED'',
                                h_performedBy = userId,
                                h_notes = ''Item uploaded and processed with AI analysis''\<rparr>],
                            db_audit := db_audit d1 @
                              [\<lparr>a_userId = userId, a_action = ''UPLOAD_ITEM'',
                                a_payload = JObject [(''itemId'', JString (new_id env)),
                                  (''filename'', JString filename),
                                  (''aiAnalysis'', JObject [(''colors'', JStrings colors),
                                     (''type'', JString (or_empty detectedType)),
                                     (''occasion'', JString detectedOccasion),
                                     (''season'', JString detectedSeason)])],
                                a_ipAddress = ipAddress_of req\<rparr>]\<rparr>))))"

text \<open>
  The five settled analysis promises of the frontend upload (\<open>None\<close> is a rejection) and
  whether the processed copy could be written.
\<close>

record settled =
  s_colors :: "string list option"
  s_type :: "string option"
  s_occasion :: "string option"
  s_season :: "string option"
  s_name :: "string option"
  s_processed_written :: bool

text \<open>
  \<open>POST\<close> of the frontend upload (the second handler in \<open>items/[id]/route.ts\<close>).
  \<open>original_written\<close> is whether the uploaded file could be written, \<open>now_ms\<close> the
  clock when the file name is made and \<open>ts\<close> when the document is saved. (The
  \<open>createGeminiAPI()\<close> guard only constructs the client object and has no failing
  branch in the model.)
\<close>

definition POST_upload_frontend ::
  "nat \<Rightarrow> bool \<Rightarrow> settled \<Rightarrow> string \<Rightarrow> nat \<Rightarrow> upload_form \<Rightarrow> request \<Rightarrow> db
     \<Rightarrow> (http_error + upload_response) \<times> db" where
  "POST_upload_frontend now_ms original_written ai nid ts form req d =
     (case f_file form of
        None \<Rightarrow> (Inl (400, ''Missing required fields''), d)
      | Some file \<Rightarrow>
        if \<not> truthy (f_userId form) \<or> \<not> truthy (f_type form)
        then (Inl (400, ''Missing required fields''), d)
        else if \<not> original_written then (Inl (500, ''Failed to upload file''), d)
        else
          (let userId = or_empty (f_userId form);
               filename = string_of_nat now_ms @ ''-'' @ file_name file;
               processedUrl = (if s_processed_written ai then ''/uploads/processed-'' @ filename
                               else ''/uploads/'' @ filename);
               colors = (case s_colors ai of None \<Rightarrow> [''Unknown''] | Some cs \<Rightarrow> cs);
               detectedType = (case s_type ai of None \<Rightarrow> or_empty (f_type form) | Some v \<Rightarrow> v);
               detectedOccasion =
                 (case s_occasion ai of None \<Rightarrow> or_else (f_occasion form) ''CASUAL'' | Some v \<Rightarrow> v);
               detectedSeason =
                 (case s_season ai of None \<Rightarrow> or_else (f_season form) ''ALL_SEASON'' | Some v \<Rightarrow> v);
               detectedName =
                 (case s_name ai of
                    None \<Rightarrow> or_else (f_name form) (takeWhile (\<lambda>c. c \<noteq> CHR ''.'') (file_name file))
                  | Some v \<Rightarrow> v);
               item = new_Item
                 \<lparr>item_id = nid, userId = userId, name = detectedName,
                  filename = filename, objectUrl = ''/uploads/'' @ filename,
                  thumbnailUrl = Some (''/uploads/'' @ filename), processedUrl = Some processedUrl,
                  colors = colors, type = detectedType,
                  occasion = detectedOccasion, season = detectedSeason,
                  laundryStatus = ''IN_WARDROBE'', usageCount = 0, isFavorite = False,
                  createdAt = ts, updatedAt = ts\<rparr>
           in case save item d of
                None \<Rightarrow> (Inl (500, ''Failed to upload file''), d)
              | Some d1 \<Rightarrow>
                  (Inr \<lparr>r_item = item\<lparr>colors := colors\<rparr>,
                        r_aiAnalysis = \<lparr>ai_colors = colors, ai_type = Some detectedType,
                          ai_occasion = detectedOccasion, ai_season = detectedSeason,
                          ai_name = detectedName\<rparr>\<rparr>,
                   d1\<lparr>db_history := db_history d1 @
                        [\<lparr>h_itemId = nid, h_action = ''CREATED'', h_performedBy = userId,
                          h_notes = ''Item uploaded and processed with AI analysis''\<rparr>],
                      db_audit := db_audit d1 @
                        [\<lparr>a_userId = userId, a_action = ''UPLOAD_ITEM'',
                          a_payload = JObject [(''itemId'', JString nid),
                            (''filename'', JString filename),
                            (''aiAnalysis'', JObject [(''colors'', JStrings colors),
                               (''type'', JString detectedType),
                               (''occasion'', JString detectedOccasion),
                               (''season'', JString detectedSeason)])],
                          a_ipAddress = ipAddress_of req\<rparr>]\<rparr>)))"

text \<open>Example requests that ask for a used, favorite item.\<close>

definition greedy_body :: create_body where
  "greedy_body = \<lparr>c_userId = Some ''u1'', c_name = Some '' Red scarf '', c_filename = Some ''scarf.jpg'',
     c_objectUrl = Some ''/uploads/scarf.jpg'', c_thumbnailUrl = Some ''/uploads/scarf.jpg'',
     c_processedUrl = None, c_colors = Some [''Red''], c_type = Some ''ACCESSORY'',
     c_occasion = None, c_season = Some ''WINTER'', c_usageCount = Some 99,
     c_isFavorite = Some True, c_laundryStatus = Some ''AWAY''\<rparr>"

definition greedy_form :: upload_form where
  "greedy_form = \<lparr>f_file = Some \<lparr>file_name = ''my scarf.jpg'', file_type = ''image/jpeg''\<rparr>,
     f_userId = Some ''u1'', f_name = Some ''Red scarf'', f_type = Some ''ACCESSORY'',
     f_occasion = None, f_season = None, f_usageCount = Some ''99'', f_isFavorite = Some ''true''\<rparr>"

definition quiet_env :: upload_env where
  "quiet_env = \<lparr>now = 1700000000000, saved_at = 1700000000250, storage = Stored_local,
     aiAvailable = False,
     analysisResult = None, new_id = ''n1''\<rparr>"

definition all_rejected :: settled where
  "all_rejected = \<lparr>s_colors = None, s_type = None, s_occasion = None, s_season = None,
     s_name = None, s_processed_written = True\<rparr>"

section \<open>AI provider adapters: classification\<close>

subsection \<open>String operations\<close>

text \<open>
  The string methods and regular expressions the adapters use, on ASCII text:
  \<open>toLowerCase\<close>, \<open>includes\<close>, \<open>replace(/[...]/g, '')\<close>, \<open>split(/\s+/)[0]\<close>,
  \<open>split(/\r?\n/)\<close>, \<open>replace(/^["']|["']$/g, '')\<close>, the case-insensitive prefix
  patterns of the name functions, the code-fence pattern, \<open>split(/[\r\n,]+/)\<close> and
  \<open>match(/\[[\s\S]*?\]/)\<close>.
\<close>

definition lower_char :: "char \<Rightarrow> char" where
  "lower_char c =
     (let n = (of_char c :: nat) in if 65 \<le> n \<and> n \<le> 90 then char_of (n + 32) else c)"

definition toLowerCase :: "string \<Rightarrow> string" where
  "toLowerCase s = map lower_char s"

fun str_includes :: "string \<Rightarrow> string \<Rightarrow> bool" where
  "str_includes [] t = (t = [])"
| "str_includes (c # cs) t = (take (length t) (c # cs) = t \<or> str_includes cs t)"

definition remove_chars :: "char list \<Rightarrow> string \<Rightarrow> string" where
  "remove_chars cs s = filter (\<lambda>c. c \<notin> set cs) s"

definition first_word :: "string \<Rightarrow> string" where
  "first_word s = takeWhile (\<lambda>c. \<not> is_space c) s"

text \<open>
  \<open>s.split(/\r?\n/)\<close>: the pieces between line feeds, each piece before a line feed
  without one carriage return at its end.
\<close>

fun split_lines_from :: "string \<Rightarrow> string \<Rightarrow> string list" where
  "split_lines_from acc [] = [rev acc]"
| "split_lines_from acc (c # cs) =
     (if c = CHR 0x0A
      then rev (case acc of [] \<Rightarrow> [] | a # as \<Rightarrow> if a = CHR 0x0D then as else a # as)
             # split_lines_from [] cs
      else split_lines_from (c # acc) cs)"

definition split_lines :: "string \<Rightarrow> string list" where
  "split_lines s = split_lines_from [] s"

definition is_quote :: "char \<Rightarrow> bool" where
  "is_quote c = (c = CHR 0x22 \<or> c = CHR 0x27)"

text \<open>
  \<open>s.replace(/^["']|["']$/g, '')\<close>: a quote at the start is removed, then a quote at
  the end of what is left.
\<close>

definition strip_quotes :: "string \<Rightarrow> string" where
  "strip_quotes s =
     (let s1 = (case s of [] \<Rightarrow> [] | c # cs \<Rightarrow> if is_quote c then cs else c # cs)
      in if s1 \<noteq> [] \<and> is_quote (last s1) then butlast s1 else s1)"

text \<open>
  \<open>s.replace(/^(p1|p2|...)\s+/i, '')\<close>: the first alternative, in order, that matches
  the start of \<open>s\<close> whatever the case and is followed by white space, is removed with
  all the white space after it.
\<close>

definition strip_prefix_ci :: "string list \<Rightarrow> string \<Rightarrow> string" where
  "strip_prefix_ci ps s =
     (case find (\<lambda>p. toLowerCase (take (length p) s) = p \<and>
                      (case drop (length p) s of [] \<Rightarrow> False | c # cs \<Rightarrow> is_space c)) ps of
        None \<Rightarrow> s
      | Some p \<Rightarrow> dropWhile is_space (drop (length p) s))"

text \<open>
  \<open>s.replace(/```[\w]*\n?/g, '')\<close>: every run of three backquotes is removed with the
  word characters and the one line feed that follow it.
\<close>

definition word_char :: "char \<Rightarrow> bool" where
  "word_char c =
     (let n = (of_char c :: nat)
      in (48 \<le> n \<and> n \<le> 57) \<or> (65 \<le> n \<and> n \<le> 90) \<or> (97 \<le> n \<and> n \<le> 122) \<or> n = 95)"

definition after_fence :: "string \<Rightarrow> string" where
  "after_fence s =
     (case dropWhile word_char s of [] \<Rightarrow> []
      | c # cs \<Rightarrow> if c = CHR 0x0A then cs else c # cs)"

function remove_fences :: "string \<Rightarrow> string" where
  "remove_fences [] = []"
| "remove_fences (c # cs) =
     (if take 3 (c # cs) = [CHR 0x60, CHR 0x60, CHR 0x60]
      then remove_fences (after_fence (drop 3 (c # cs)))
      else c # remove_fences cs)"
  by pat_completeness auto
termination
proof (relation "measure length")
  show "wf (measure length)" by simp
next
  fix c cs assume "take 3 (c # cs) = [CHR 0x60, CHR 0x60, CHR 0x60]"
  have "length (after_fence s) \<le> length s" for s
    using length_dropWhile_le[of word_char s]
    by (auto simp: after_fence_def split: list.splits)
  then have "length (after_fence (drop 3 (c # cs))) \<le> length (drop 3 (c # cs))" .
  then show "(after_fence (drop 3 (c # cs)), c # cs) \<in> measure length" by simp
next
  fix c cs show "(cs, c # cs) \<in> measure length" by simp
qed

definition capitalise :: "string \<Rightarrow> string" where
  "capitalise s = (case s of [] \<Rightarrow> [] | c # cs \<Rightarrow> upper_char c # cs)"

text \<open>\<open>s.split(/[...]+/)\<close> for a set \<open>sep\<close> of separator characters.\<close>

function split_runs :: "(char \<Rightarrow> bool) \<Rightarrow> string \<Rightarrow> string list" where
  "split_runs sep s =
     (let rest = dropWhile (\<lambda>c. \<not> sep c) s
      in if rest = [] then [takeWhile (\<lambda>c. \<not> sep c) s]
         else takeWhile (\<lambda>c. \<not> sep c) s # split_runs sep (dropWhile sep rest))"
  by pat_completeness auto
termination
proof (relation "measure (\<lambda>(sep, s). length s)")
  show "wf (measure (\<lambda>(sep, s). length s))" by simp
next
  fix sep :: "char \<Rightarrow> bool" and s rest
  assume r: "rest = dropWhile (\<lambda>c. \<not> sep c) s" "rest \<noteq> []"
  then obtain c cs where c: "rest = c # cs" "sep c"
    by (metis hd_dropWhile list.exhaust_sel)
  have "length (dropWhile sep rest) \<le> length cs" using c by (simp add: length_dropWhile_le)
  moreover have "length rest \<le> length s" using r(1) by (simp add: length_dropWhile_le)
  ultimately show "((sep, dropWhile sep rest), (sep, s)) \<in> measure (\<lambda>(sep, s). length s)"
    using c by simp
qed

text \<open>
  \<open>s.match(/\[[\s\S]*?\]/)\<close>: from the first opening bracket to the first closing
  bracket after it.
\<close>

definition match_bracket :: "string \<Rightarrow> string option" where
  "match_bracket s =
     (case dropWhile (\<lambda>c. c \<noteq> CHR ''['') s of
        [] \<Rightarrow> None
      | b # rest \<Rightarrow>
          (case dropWhile (\<lambda>c. c \<noteq> CHR '']'') rest of
             [] \<Rightarrow> None
           | e # _ \<Rightarrow> Some (b # takeWhile (\<lambda>c. c \<noteq> CHR '']'') rest @ [e])))"

subsection \<open>The Gemini client\<close>

text \<open>
  The decoded body of a Gemini response, as far as \<open>parseResponseText\<close> reads it: the
  candidates (\<open>None\<close> when \<open>candidates\<close> is not an array), each the parts of its
  content; of a part the text, the structured JSON as the string \<open>parseResponseText\<close>
  returns for it, and the inline data (MIME type and data). \<open>stringified\<close> is
  \<open>JSON.stringify\<close> of the whole body.
\<close>

record gemini_part =
  p_text :: "string option"
  p_structuredJson :: "string option"
  p_inlineData :: "(string option \<times> string) option"

record GeminiResponse =
  candidates :: "gemini_part list list option"
  stringified :: string

text \<open>\<open>parseResponseText\<close> (the same text in \<open>gemini.ts\<close> and \<open>part_016\<close>).\<close>

definition candidate_structured :: "gemini_part list \<Rightarrow> string option" where
  "candidate_structured parts =
     (case find (\<lambda>p. truthy (p_structuredJson p)) parts of
        None \<Rightarrow> None
      | Some p \<Rightarrow> p_structuredJson p)"

definition part_text :: "gemini_part \<Rightarrow> string list" where
  "part_text p =
     (if (case p_text p of None \<Rightarrow> False | Some t \<Rightarrow> length (trim t) > 0)
      then [or_empty (p_text p)]
      else (case p_inlineData p of
              None \<Rightarrow> []
            | Some (mimeType, data) \<Rightarrow>
                if data = [] then []
                else [''[inlineData: mime='' @ (case mimeType of None \<Rightarrow> ''unknown'' | Some m \<Rightarrow> m) @
                      '' length='' @ string_of_nat (length data) @ '']'']))"

fun join_lines :: "string list \<Rightarrow> string" where
  "join_lines [] = []"
| "join_lines [x] = x"
| "join_lines (x # y # ys) = x @ [CHR 0x0A] @ join_lines (y # ys)"

fun parse_candidates :: "gemini_part list list \<Rightarrow> string option" where
  "parse_candidates [] = None"
| "parse_candidates (parts # rest) =
     (case candidate_structured parts of
        Some s \<Rightarrow> Some s
      | None \<Rightarrow>
          (let textParts = concat (map part_text parts)
           in if length textParts > 0 then Some (trim (join_lines textParts))
              else parse_candidates rest))"

definition parseResponseText :: "GeminiResponse \<Rightarrow> string" where
  "parseResponseText resp =
     (case candidates resp of
        None \<Rightarrow> []
      | Some cs \<Rightarrow> (case parse_candidates cs of Some t \<Rightarrow> t | None \<Rightarrow> stringified resp))"

text \<open>
  \<open>GeminiAPI.analyzeImage\<close> (both Gemini adapters): \<open>fetch\<close> is the behaviour of the
  network for this call, \<open>json\<close> the decoding of a response body (\<open>None\<close> when
  \<open>response.json()\<close> rejects). \<open>Inl\<close> is the exception thrown, \<open>Inr\<close> the text.
\<close>

definition gemini_analyzeImage ::
  "(nat \<Rightarrow> fetch_outcome) \<Rightarrow> (response \<Rightarrow> GeminiResponse option) \<Rightarrow> string + string" where
  "gemini_analyzeImage fetch json =
     (case fst (fetchWithBackoff_default fetch) of
        Inl err \<Rightarrow> Inl err
      | Inr response \<Rightarrow>
          if \<not> ok response
          then Inl (''Gemini analyzeImage error '' @ string_of_nat (status response) @ '': '' @
                    safeText response)
          else (case json response of
                  None \<Rightarrow> Inl ''Unexpected token in JSON''
                | Some data \<Rightarrow>
                    (let text = parseResponseText data
                     in if text = [] then Inl ''No textual response from Gemini analyzeImage''
                        else Inr text)))"

subsection \<open>The OpenAI client\<close>

text \<open>
  The decoded body of an OpenAI response: the message of its \<open>error\<close> object and the
  content of its first choice. \<open>OpenAIClient.analyzeImage\<close> throws without an API key,
  on a response that is not ok, on an \<open>error\<close> object and on missing content.
\<close>

record OpenAIResponse =
  o_error :: "string option"
  o_content :: "string option"

definition openai_analyzeImage ::
  "string \<Rightarrow> (nat \<Rightarrow> fetch_outcome) \<Rightarrow> (response \<Rightarrow> OpenAIResponse option) \<Rightarrow> string + string" where
  "openai_analyzeImage apiKey fetch json =
     (if apiKey = [] then Inl ''OpenAI API key is required''
      else
        (case fst (fetchWithRetry_default fetch) of
           Inl err \<Rightarrow> Inl err
         | Inr response \<Rightarrow>
             if \<not> ok response
             then (let errorMessage =
                         (case json response of None \<Rightarrow> ''Unknown error''
                          | Some errorData \<Rightarrow> or_else (o_error errorData) ''Unknown error'')
                   in if status response = 429
                      then Inl (''OpenAI API quota exceeded. Please check your billing or upgrade your plan. Original error: '' @ errorMessage)
                      else if status response = 401
                      then Inl (''OpenAI API key invalid. Please check your API key. Original error: '' @ errorMessage)
                      else if status response = 402
                      then Inl (''OpenAI API payment required. Please add payment method. Original error: '' @ errorMessage)
                      else Inl (''OpenAI API error '' @ string_of_nat (status response) @ '': '' @
                                errorMessage))
             else (case json response of
                     None \<Rightarrow> Inl ''Unexpected token in JSON''
                   | Some data \<Rightarrow>
                       (case o_error data of
                          Some m \<Rightarrow> Inl (''OpenAI API error: '' @ m)
                        | None \<Rightarrow>
                            if truthy (o_content data) then Inr (or_empty (o_content data))
                            else Inl ''No content in OpenAI response''))))"

subsection \<open>The five operations\<close>

text \<open>
  Each operation is given as a function of what \<open>analyzeImage\<close> came to: \<open>Inl\<close> when
  it threw (the operation's \<open>catch\<close>), \<open>Inr\<close> its text. \<open>JSON.parse\<close> is a parameter
  of the colour functions: \<open>None\<close> when it throws, else an array (its elements through
  \<open>String\<close>) or another value.
\<close>

datatype parsed = Parsed_array "string list" | Parsed_other

definition validTypes :: "string list" where
  "validTypes = [''TOP'', ''BOTTOM'', ''DRESS'', ''OUTERWEAR'', ''SHOES'', ''ACCESSORY'', ''UNDERWEAR'',
     ''SWIMWEAR'', ''SPORTSWEAR'']"

definition validOccasions :: "string list" where
  "validOccasions = [''CASUAL'', ''WORK'', ''FORMAL'', ''PARTY'', ''SPORTS'', ''BEACH'', ''DATE_NIGHT'',
     ''TRAVEL'']"

definition validSeasons :: "string list" where
  "validSeasons = [''SPRING'', ''SUMMER'', ''FALL'', ''WINTER'', ''ALL_SEASON'']"

text \<open>
  The shape shared by \<open>suggestOccasion\<close> and \<open>suggestSeason\<close> in all four adapters
  and by \<open>identifyClothingType\<close> in \<open>gemini.ts\<close>: the cleaned text when it is a valid
  value, else the first valid value the upper-cased text includes, else the default.
\<close>

definition pick_value :: "string list \<Rightarrow> string \<Rightarrow> string + string \<Rightarrow> string" where
  "pick_value valid dflt out =
     (case out of
        Inl err \<Rightarrow> dflt
      | Inr resp \<Rightarrow>
          (let cleaned = remove_chars [CHR 0x22, CHR 0x27, CHR ''.''] (toUpperCase (trim resp))
           in if cleaned \<in> set valid then cleaned
              else (case find (\<lambda>t. str_includes (toUpperCase resp) t) valid of
                      Some t \<Rightarrow> t
                    | None \<Rightarrow> dflt)))"

definition suggestOccasion :: "string + string \<Rightarrow> string" where
  "suggestOccasion out = pick_value validOccasions ''CASUAL'' out"

definition suggestSeason :: "string + string \<Rightarrow> string" where
  "suggestSeason out = pick_value validSeasons ''ALL_SEASON'' out"

definition identifyClothingType_gemini :: "string + string \<Rightarrow> string" where
  "identifyClothingType_gemini out = pick_value validTypes ''TOP'' out"

text \<open>
  \<open>identifyClothingType\<close> of \<open>part_016\<close> and of the OpenAI and HuggingFace adapters:
  the first word, then a valid value inside the cleaned text, then a key of \<open>typeMap\<close>
  in insertion order, then \<open>'TOP'\<close>.
\<close>

definition typeMap_016 :: "(string \<times> string) list" where
  "typeMap_016 =
     [(''SHIRT'', ''TOP''), (''T-SHIRT'', ''TOP''), (''TSHIRT'', ''TOP''), (''BLOUSE'', ''TOP''),
      (''SWEATER'', ''TOP''), (''HOODIE'', ''TOP''),
      (''PANT'', ''BOTTOM''), (''JEAN'', ''BOTTOM''), (''TROUSER'', ''BOTTOM''), (''SHORT'', ''BOTTOM''),
      (''SKIRT'', ''BOTTOM''),
      (''JACKET'', ''OUTERWEAR''), (''COAT'', ''OUTERWEAR''), (''BLAZER'', ''OUTERWEAR''),
      (''SNEAKER'', ''SHOES''), (''BOOT'', ''SHOES''), (''SANDAL'', ''SHOES''), (''HEEL'', ''SHOES''),
      (''BAG'', ''ACCESSORY''), (''HAT'', ''ACCESSORY''), (''BELT'', ''ACCESSORY''),
      (''SWIMSUIT'', ''SWIMWEAR''), (''BIKINI'', ''SWIMWEAR''),
      (''ATHLETIC'', ''SPORTSWEAR''), (''SPORT'', ''SPORTSWEAR''), (''GYM'', ''SPORTSWEAR'')]"

definition typeMap_openai :: "(string \<times> string) list" where
  "typeMap_openai =
     [(''SHIRT'', ''TOP''), (''T-SHIRT'', ''TOP''), (''TSHIRT'', ''TOP''), (''BLOUSE'', ''TOP''),
      (''SWEATER'', ''TOP''), (''HOODIE'', ''TOP''),
      (''PANT'', ''BOTTOM''), (''JEAN'', ''BOTTOM''), (''TROUSER'', ''BOTTOM''), (''SHORT'', ''BOTTOM''),
      (''SKIRT'', ''BOTTOM''),
      (''JACKET'', ''OUTERWEAR''), (''COAT'', ''OUTERWEAR''), (''BLAZER'', ''OUTERWEAR''),
      (''SNEAKER'', ''SHOES''), (''BOOT'', ''SHOES''), (''SANDAL'', ''SHOES''), (''HEEL'', ''SHOES''),
      (''BAG'', ''ACCESSORY''), (''HAT'', ''ACCESSORY''), (''BELT'', ''ACCESSORY''),
      (''JEWELRY'', ''ACCESSORY''), (''NECKLACE'', ''ACCESSORY''), (''EARRING'', ''ACCESSORY''),
      (''BRACELET'', ''ACCESSORY''), (''RING'', ''ACCESSORY''),
      (''SWIMSUIT'', ''SWIMWEAR''), (''BIKINI'', ''SWIMWEAR''),
      (''ATHLETIC'', ''SPORTSWEAR''), (''SPORT'', ''SPORTSWEAR''), (''GYM'', ''SPORTSWEAR'')]"

definition identify_with_map :: "(string \<times> string) list \<Rightarrow> string + string \<Rightarrow> string" where
  "identify_with_map typeMap out =
     (case out of
        Inl err \<Rightarrow> ''TOP''
      | Inr resp \<Rightarrow>
          (let cleaned = remove_chars [CHR 0x22, CHR 0x27, CHR ''.'', CHR '','', CHR '';'', CHR '':'',
                                        CHR ''!'', CHR ''?''] (toUpperCase (trim resp));
               firstWord = first_word cleaned
           in if firstWord \<in> set validTypes then firstWord
              else (case find (\<lambda>t. str_includes cleaned t) validTypes of
                      Some t \<Rightarrow> t
                    | None \<Rightarrow>
                        (case find (\<lambda>(key, val). str_includes cleaned key) typeMap of
                           Some (key, val) \<Rightarrow> val
                         | None \<Rightarrow> ''TOP''))))"

definition identifyClothingType_016 :: "string + string \<Rightarrow> string" where
  "identifyClothingType_016 out = identify_with_map typeMap_016 out"

definition identifyClothingType_openai :: "string + string \<Rightarrow> string" where
  "identifyClothingType_openai out = identify_with_map typeMap_openai out"

text \<open>\<open>generateItemName\<close> of \<open>gemini.ts\<close>, of \<open>part_016\<close> and of the OpenAI adapter.\<close>

definition generateItemName_gemini :: "string + string \<Rightarrow> string" where
  "generateItemName_gemini out =
     (case out of
        Inl err \<Rightarrow> ''Unknown Item''
      | Inr resp \<Rightarrow>
          (case split_lines resp of
             [] \<Rightarrow> ''Unknown Item''
           | first # _ \<Rightarrow>
               (let line = trim first;
                    name = trim (strip_quotes line)
                in if name = [] then ''Unknown Item'' else name)))"

definition first_line_or :: "string \<Rightarrow> string" where
  "first_line_or resp =
     (case filter (\<lambda>line. length (trim line) > 0) (split_lines resp) of
        [] \<Rightarrow> resp
      | l # _ \<Rightarrow> if l = [] then resp else l)"

definition generateItemName_016 :: "string + string \<Rightarrow> string" where
  "generateItemName_016 out =
     (case out of
        Inl err \<Rightarrow> ''Clothing Item''
      | Inr resp \<Rightarrow>
          (let name0 = first_line_or resp;
               name1 = trim (strip_quotes name0);
               name2 = trim (strip_prefix_ci [''this is a'', ''the item is'', ''it is'', ''it'' @ [CHR 0x27] @ ''s'',
                                               ''this is''] name1);
               name3 = (if length name2 > 0 then capitalise name2 else name2)
           in if name3 = [] then ''Clothing Item'' else name3))"

definition generateItemName_openai :: "string + string \<Rightarrow> string" where
  "generateItemName_openai out =
     (case out of
        Inl err \<Rightarrow> ''Clothing Item''
      | Inr resp \<Rightarrow>
          (let name0 = first_line_or resp;
               name1 = trim (strip_quotes name0);
               name2 = trim (strip_prefix_ci [''this is a'', ''the item is'', ''it is'', ''it'' @ [CHR 0x27] @ ''s'',
                                               ''this is'', ''name:'', ''item:''] name1);
               name3 = trim (remove_fences name2);
               name4 = (if length name3 > 0 then capitalise name3 else name3)
           in if name4 = [] then ''Clothing Item'' else name4))"

text \<open>
  \<open>extractColorsFromImage\<close>. In \<open>gemini.ts\<close> the text is parsed as JSON and, when that
  throws, cut into pieces; in \<open>part_016\<close> and the OpenAI adapter the first bracketed
  part is parsed first, then the whole text, and the \<open>catch\<close> keeps at most four short
  pieces.
\<close>

definition color_tokens :: "string \<Rightarrow> string list" where
  "color_tokens responseText =
     filter (\<lambda>s. s \<noteq> [])
       (map trim
          (split_runs (\<lambda>c. c = CHR 0x0D \<or> c = CHR 0x0A \<or> c = CHR '','')
             (trim (remove_chars [CHR ''['', CHR '']'', CHR 0x22, CHR 0x27] responseText))))"

definition extractColorsFromImage_gemini ::
  "(string \<Rightarrow> parsed option) \<Rightarrow> string + string \<Rightarrow> string list" where
  "extractColorsFromImage_gemini JSON_parse out =
     (case out of
        Inl err \<Rightarrow> [''Unknown'']
      | Inr responseText \<Rightarrow>
          (case JSON_parse responseText of
             Some (Parsed_array cs) \<Rightarrow> cs
           | Some Parsed_other \<Rightarrow> [''Unknown'']
           | None \<Rightarrow>
               (let possible = color_tokens responseText
                in if length possible > 0 then possible else [''Unknown''])))"

definition colors_from_text :: "(string \<Rightarrow> bool) \<Rightarrow> string \<Rightarrow> string list" where
  "colors_from_text keep responseText =
     (let possible = filter keep (color_tokens responseText)
      in if length possible > 0 then take 4 possible else [''Unknown''])"

definition clean_colors :: "string list \<Rightarrow> string list" where
  "clean_colors cs = filter (\<lambda>s. s \<noteq> []) (map trim cs)"

definition colors_lenient ::
  "(string \<Rightarrow> bool) \<Rightarrow> (string \<Rightarrow> parsed option) \<Rightarrow> string + string \<Rightarrow> string list" where
  "colors_lenient keep JSON_parse out =
     (case out of
        Inl err \<Rightarrow> [''Unknown'']
      | Inr responseText \<Rightarrow>
          (let whole =
                 (case JSON_parse responseText of
                    None \<Rightarrow> colors_from_text keep responseText
                  | Some (Parsed_array cs) \<Rightarrow> if length cs > 0 then clean_colors cs else [''Unknown'']
                  | Some Parsed_other \<Rightarrow> [''Unknown''])
           in case match_bracket responseText of
                None \<Rightarrow> whole
              | Some jsonMatch \<Rightarrow>
                  (case JSON_parse jsonMatch of
                     None \<Rightarrow> colors_from_text keep responseText
                   | Some (Parsed_array cs) \<Rightarrow> if length cs > 0 then clean_colors cs else whole
                   | Some Parsed_other \<Rightarrow> whole)))"

definition extractColorsFromImage_016 ::
  "(string \<Rightarrow> parsed option) \<Rightarrow> string + string \<Rightarrow> string list" where
  "extractColorsFromImage_016 = colors_lenient (\<lambda>s. length s < 20)"

definition extractColorsFromImage_openai ::
  "(string \<Rightarrow> parsed option) \<Rightarrow> string + string \<Rightarrow> string list" where
  "extractColorsFromImage_openai = colors_lenient (\<lambda>s. length s < 20 \<and> length s > 2)"

subsection \<open>The HuggingFace adapter\<close>

text \<open>
  The decoded body of a HuggingFace response, as far as \<open>analyzeImage\<close> reads it (of an
  array, its first element).
\<close>

record HuggingFaceResponse =
  generated_text :: "string option"
  hf_error :: "string option"

text \<open>
  \<open>HuggingFaceClient.analyzeImage\<close> of \<open>part_017\<close>. \<open>fetch\<close> is the behaviour of the
  network from this call on, \<open>json\<close> the decoding of a response body (\<open>Inl\<close> the
  message of the exception when \<open>response.json()\<close> rejects, or when the body is an empty
  array and reading \<open>error\<close> of its first element throws). When the wrapped call ends with a
  503 or a 429 response, the client waits 5000 ms or 10000 ms and calls itself again, each
  time with the wrapper's full budget; nothing in the source bounds the number of these
  calls. \<open>rounds\<close> is the number of times the body may run in the model. The result is the
  exception thrown (\<open>Inl\<close>) or the caption returned (\<open>Inr\<close>), \<open>None\<close> when the call has
  not returned after \<open>rounds\<close> runs of the body, and all delays waited, those of the
  wrapper and those of the client, in order.
\<close>

fun hf_analyzeImage ::
  "nat \<Rightarrow> string \<Rightarrow> (nat \<Rightarrow> fetch_outcome) \<Rightarrow> (response \<Rightarrow> string + HuggingFaceResponse)
     \<Rightarrow> (string + string) option \<times> nat list" where
  "hf_analyzeImage 0 apiKey fetch json = (None, [])"
| "hf_analyzeImage (Suc rounds) apiKey fetch json =
     (if apiKey = [] then (Some (Inl ''HuggingFace API key is required''), [])
      else
        (case fetchWithRetry_default fetch of
           (Inl err, delays) \<Rightarrow> (Some (Inl err), delays)
         | (Inr response, delays) \<Rightarrow>
             if \<not> ok response
             then (let errorText = (case body response of None \<Rightarrow> ''Unknown error'' | Some t \<Rightarrow> t)
                   in if status response = 410 \<or> str_includes errorText ''no longer supported''
                      then (Some (Inr ''A clothing item''), delays)
                      else if status response = 503
                      then (case hf_analyzeImage rounds apiKey
                                   (\<lambda>j. fetch (length delays + 1 + j)) json of
                              (result, later) \<Rightarrow> (result, delays @ 5000 # later))
                      else if status response = 429
                      then (case hf_analyzeImage rounds apiKey
                                   (\<lambda>j. fetch (length delays + 1 + j)) json of
                              (result, later) \<Rightarrow> (result, delays @ 10000 # later))
                      else (Some (Inl (''HuggingFace API error '' @ string_of_nat (status response) @
                                       '': '' @ take 200 errorText)), delays))
             else (case json response of
                     Inl err \<Rightarrow> (Some (Inl err), delays)
                   | Inr result \<Rightarrow>
                       if truthy (hf_error result)
                       then (Some (Inl (''HuggingFace API error: '' @ or_empty (hf_error result))), delays)
                       else if \<not> truthy (generated_text result)
                       then (Some (Inl ''No caption generated from HuggingFace response''), delays)
                       else (Some (Inr (or_empty (generated_text result))), delays))))"

text \<open>
  A service whose model is loading for ever, one that is rate-limited for ever, and one
  that answers after five 503 responses.
\<close>

definition always_loading :: "nat \<Rightarrow> fetch_outcome" where
  "always_loading j = Fetch_response \<lparr>status = 503, body = Some ''Model is currently loading''\<rparr>"

definition always_limited :: "nat \<Rightarrow> fetch_outcome" where
  "always_limited j = Fetch_response \<lparr>status = 429, body = Some ''Rate limit reached''\<rparr>"

definition loading_five :: "nat \<Rightarrow> fetch_outcome" where
  "loading_five j =
     (if j < 5 then Fetch_response \<lparr>status = 503, body = Some ''Model is currently loading''\<rparr>
      else Fetch_response \<lparr>status = 200, body = Some ''[{generated_text: a blue shirt}]''\<rparr>)"

definition caption_json :: "response \<Rightarrow> string + HuggingFaceResponse" where
  "caption_json res = Inr \<lparr>generated_text = Some ''a blue shirt'', hf_error = None\<rparr>"

text \<open>The prompts of the five operations of \<open>part_017\<close>.\<close>

definition prompt_colors_hf :: string where
  "prompt_colors_hf =
     ''Based on this image description, identify the main colors present in the '' @
     ''clothing item. '' @
     [CHR 0x0A] @
     ''Return ONLY a JSON array of color names. Use simple color names like: '' @
     ''Red, Blue, Green, Yellow, Black, White, Gray, Brown, Pink, Purple, Orange, '' @
     ''Navy, Beige.'' @
     [CHR 0x0A] @
     ''Example: ['' @
     [CHR 0x22] @
     ''Blue'' @
     [CHR 0x22] @
     '', '' @
     [CHR 0x22] @
     ''White'' @
     [CHR 0x22] @
     '']'' @
     [CHR 0x0A] @
     ''Return ONLY the JSON array, no other text.''"

definition prompt_type_hf :: string where
  "prompt_type_hf =
     ''Based on this image description, classify the clothing item into ONE category.'' @
     [CHR 0x0A] @
     [CHR 0x0A] @
     ''VALID CATEGORIES: TOP, BOTTOM, DRESS, OUTERWEAR, SHOES, ACCESSORY, UNDERWEAR, '' @
     ''SWIMWEAR, SPORTSWEAR'' @
     [CHR 0x0A] @
     [CHR 0x0A] @
     ''CLASSIFICATION RULES:'' @
     [CHR 0x0A] @
     ''- TOP = Upper body garments (shirts, t-shirts, blouses, sweaters, hoodies)'' @
     [CHR 0x0A] @
     ''- BOTTOM = Lower body garments (pants, jeans, shorts, skirts)'' @
     [CHR 0x0A] @
     ''- DRESS = One-piece garments (dresses, jumpsuits)'' @
     [CHR 0x0A] @
     ''- OUTERWEAR = Outer layers (jackets, coats, blazers)'' @
     [CHR 0x0A] @
     ''- SHOES = Footwear (all types of shoes, boots, sandals)'' @
     [CHR 0x0A] @
     ''- ACCESSORY = Non-garment items including ALL jewelry (necklaces, earrings, '' @
     ''bracelets, rings, bags, hats, belts)'' @
     [CHR 0x0A] @
     ''- UNDERWEAR = Under garments'' @
     [CHR 0x0A] @
     ''- SWIMWEAR = Swimming attire'' @
     [CHR 0x0A] @
     ''- SPORTSWEAR = Athletic clothing'' @
     [CHR 0x0A] @
     [CHR 0x0A] @
     ''CRITICAL: If it'' @
     [CHR 0x27] @
     ''s jewelry (necklace, earring, bracelet, ring), return ACCESSORY.'' @
     [CHR 0x0A] @
     ''Return ONLY the exact word from the list above. No explanations.''"

definition prompt_occasion_hf :: string where
  "prompt_occasion_hf =
     ''Based on this image description, suggest the most appropriate occasion.'' @
     [CHR 0x0A] @
     ''Return ONLY one of these exact values: CASUAL, WORK, FORMAL, PARTY, SPORTS, '' @
     ''BEACH, DATE_NIGHT, TRAVEL.'' @
     [CHR 0x0A] @
     ''Your response must be only the single word, with no other text.''"

definition prompt_season_hf :: string where
  "prompt_season_hf =
     ''Based on this image description, suggest the most appropriate season.'' @
     [CHR 0x0A] @
     ''Return ONLY one of these exact values: SPRING, SUMMER, FALL, WINTER, ALL_SEASON.'' @
     [CHR 0x0A] @
     ''Your response must be only the single word, with no other text.''"

definition prompt_name_hf :: string where
  "prompt_name_hf =
     ''Based on this image description, create a descriptive name for the clothing '' @
     ''item.'' @
     [CHR 0x0A] @
     [CHR 0x0A] @
     ''Format: [Color] [Material/Style] [Item Type]'' @
     [CHR 0x0A] @
     ''Examples: '' @
     [CHR 0x22] @
     ''Blue Denim Jeans'' @
     [CHR 0x22] @
     '', '' @
     [CHR 0x22] @
     ''White Cotton T-Shirt'' @
     [CHR 0x22] @
     '', '' @
     [CHR 0x22] @
     ''Black Leather Jacket'' @
     [CHR 0x22] @
     '', '' @
     [CHR 0x22] @
     ''Silver Chain Necklace'' @
     [CHR 0x22] @
     [CHR 0x0A] @
     [CHR 0x0A] @
     ''Return ONLY the name. No quotes, no explanations. Just the descriptive '' @
     ''name.''"

text \<open>
  \<open>simpleTextExtraction\<close> looks for keywords in the prompt. \<open>analyzeImageWithPrompt\<close>
  never throws: \<open>first\<close> and \<open>second\<close> are what its two calls of \<open>analyzeImage\<close>
  come to, \<open>generated\<close> the text of the text model (\<open>None\<close> when that call fails).
  The operations are those of the OpenAI adapter on its result.
\<close>

definition simpleTextExtraction :: "string \<Rightarrow> string" where
  "simpleTextExtraction prompt =
     (let lowerPrompt = toLowerCase prompt
      in if str_includes lowerPrompt ''accessory'' \<or> str_includes lowerPrompt ''jewelry''
            \<or> str_includes lowerPrompt ''necklace'' \<or> str_includes lowerPrompt ''ring''
         then ''ACCESSORY''
         else if str_includes lowerPrompt ''top'' \<or> str_includes lowerPrompt ''shirt''
            \<or> str_includes lowerPrompt ''blouse''
         then ''TOP''
         else if str_includes lowerPrompt ''bottom'' \<or> str_includes lowerPrompt ''pant''
            \<or> str_includes lowerPrompt ''jean''
         then ''BOTTOM''
         else if str_includes lowerPrompt ''dress'' then ''DRESS''
         else if str_includes lowerPrompt ''shoe'' \<or> str_includes lowerPrompt ''boot''
         then ''SHOES''
         else ''TOP'')"

definition extractStructuredInfo :: "string \<Rightarrow> string option \<Rightarrow> string" where
  "extractStructuredInfo imageDescription generated =
     (case generated of
        None \<Rightarrow> imageDescription
      | Some text \<Rightarrow> if text = [] then imageDescription else trim text)"

definition analyzeImageWithPrompt ::
  "string + string \<Rightarrow> string option \<Rightarrow> string + string \<Rightarrow> string \<Rightarrow> string" where
  "analyzeImageWithPrompt first generated second prompt =
     (case first of
        Inr imageDescription \<Rightarrow>
          if imageDescription = ''A clothing item'' then simpleTextExtraction prompt
          else extractStructuredInfo imageDescription generated
      | Inl error \<Rightarrow>
          (case second of
             Inr imageDescription \<Rightarrow> imageDescription
           | Inl imgError \<Rightarrow> simpleTextExtraction prompt))"

definition extractColorsFromImage_hf ::
  "(string \<Rightarrow> parsed option) \<Rightarrow> string + string \<Rightarrow> string option \<Rightarrow> string + string \<Rightarrow> string list" where
  "extractColorsFromImage_hf JSON_parse first generated second =
     extractColorsFromImage_openai JSON_parse
       (Inr (analyzeImageWithPrompt first generated second prompt_colors_hf))"

definition identifyClothingType_hf :: "string + string \<Rightarrow> string option \<Rightarrow> string + string \<Rightarrow> string" where
  "identifyClothingType_hf first generated second =
     identifyClothingType_openai (Inr (analyzeImageWithPrompt first generated second prompt_type_hf))"

definition suggestOccasion_hf :: "string + string \<Rightarrow> string option \<Rightarrow> string + string \<Rightarrow> string" where
  "suggestOccasion_hf first generated second =
     suggestOccasion (Inr (analyzeImageWithPrompt first generated second prompt_occasion_hf))"

definition suggestSeason_hf :: "string + string \<Rightarrow> string option \<Rightarrow> string + string \<Rightarrow> string" where
  "suggestSeason_hf first generated second =
     suggestSeason (Inr (analyzeImageWithPrompt first generated second prompt_season_hf))"

definition generateItemName_hf :: "string + string \<Rightarrow> string option \<Rightarrow> string + string \<Rightarrow> string" where
  "generateItemName_hf first generated second =
     generateItemName_openai (Inr (analyzeImageWithPrompt first generated second prompt_name_hf))"

subsection \<open>Failing calls\<close>

text \<open>
  A text that names no value of an enumeration: cleaned, it is not one of the values, and
  upper-cased it includes none.
\<close>

definition names_no_value :: "string list \<Rightarrow> string \<Rightarrow> bool" where
  "names_no_value valid resp =
     (remove_chars [CHR 0x22, CHR 0x27, CHR ''.''] (toUpperCase (trim resp)) \<notin> set valid
      \<and> list_all (\<lambda>t. \<not> str_includes (toUpperCase resp) t) valid)"

text \<open>
  The model call fails: the transport error or the 5xx/429 outlives the retries, the
  response is not ok, its body does not decode, or it holds no text (for Gemini: no
  candidates array, or an empty text; for OpenAI: an error object or no content; for
  OpenAI also a missing API key).
\<close>

definition gemini_call_fails ::
  "(nat \<Rightarrow> fetch_outcome) \<Rightarrow> (response \<Rightarrow> GeminiResponse option) \<Rightarrow> bool" where
  "gemini_call_fails fetch json =
     (case fst (fetchWithBackoff_default fetch) of
        Inl err \<Rightarrow> True
      | Inr r \<Rightarrow>
          \<not> ok r \<or>
          (case json r of
             None \<Rightarrow> True
           | Some data \<Rightarrow> candidates data = None \<or> parseResponseText data = []))"

definition openai_call_fails ::
  "string \<Rightarrow> (nat \<Rightarrow> fetch_outcome) \<Rightarrow> (response \<Rightarrow> OpenAIResponse option) \<Rightarrow> bool" where
  "openai_call_fails apiKey fetch json =
     (apiKey = [] \<or>
      (case fst (fetchWithRetry_default fetch) of
         Inl err \<Rightarrow> True
       | Inr r \<Rightarrow>
           \<not> ok r \<or>
           (case json r of
              None \<Rightarrow> True
            | Some data \<Rightarrow> o_error data \<noteq> None \<or> \<not> truthy (o_content data))))"

text \<open>Example services and decoders.\<close>

definition not_found_service :: "nat \<Rightarrow> fetch_outcome" where
  "not_found_service j = Fetch_response \<lparr>status = 404, body = Some ''no such model''\<rparr>"

definition empty_candidates_text :: string where
  "empty_candidates_text = ''{'' @ [CHR 0x22] @ ''candidates'' @ [CHR 0x22] @ '':[]}''"

definition empty_candidates_service :: "nat \<Rightarrow> fetch_outcome" where
  "empty_candidates_service j = Fetch_response \<lparr>status = 200, body = Some empty_candidates_text\<rparr>"

definition empty_candidates_json :: "response \<Rightarrow> GeminiResponse option" where
  "empty_candidates_json r = Some \<lparr>candidates = Some [], stringified = empty_candidates_text\<rparr>"

definition no_json :: "response \<Rightarrow> 'a option" where
  "no_json r = None"

definition never_parses :: "string \<Rightarrow> parsed option" where
  "never_parses s = None"

section \<open>Theorems\<close>

declare string_of_nat.simps [simp del]

declare split_runs.simps [simp del]

subsection \<open>The rule-based generator\<close>



text \<open>
  Claim C7. With the eligible items \<open>a\<close> (a TOP), \<open>b\<close> (a BOTTOM) and \<open>c\<close> (a DRESS),
  in that order and whatever their other fields, and a model call that throws, the
  handler answers with the generator's outfits, flagged as a fallback: two suggestions,
  the first with exactly the ids \<open>a\<close> and \<open>b\<close>, the second with exactly the id \<open>c\<close>.
\<close>

theorem fallback_scenario:
  assumes "item_id ia = ''a''" "type ia = ''TOP''"
    and "item_id ib = ''b''" "type ib = ''BOTTOM''"
    and "item_id ic = ''c''" "type ic = ''DRESS''"
    and "getAuthenticatedUserId req = Some u" "u \<noteq> []" "b_userId b = Some u"
    and "filter (\<lambda>x. userId x = u \<and> laundryStatus x = ''IN_WARDROBE'') (db_items d) = [ia, ib, ic]"
  shows "map itemIds (generateFallbackOutfits [ia, ib, ic] occ sea) = [[''a'', ''b''], [''c'']]
    \<and> length (generateFallbackOutfits [ia, ib, ic] occ sea) \<ge> 2
    \<and> (\<exists>r. POST_suggest req b True AI_throws d = Inr r \<and> fallback r
          \<and> map itemIds (suggestions r) = [[''a'', ''b''], [''c'']])"
proof -
  have g: "\<And>occ sea. map itemIds (generateFallbackOutfits [ia, ib, ic] occ sea) = [[''a'', ''b''], [''c'']]"
    using assms(1-6) by (simp add: generateFallbackOutfits_def)
  have l: "length (generateFallbackOutfits [ia, ib, ic] occ sea) \<ge> 2"
    using arg_cong[OF g, of length occ sea] by simp
  have "POST_suggest req b True AI_throws d =
      Inr \<lparr>success = True, suggestions = generateFallbackOutfits [ia, ib, ic] (b_occasion b) (b_season b),
           fallback = True\<rparr>"
    using assms(7-10) by (simp add: POST_suggest_def or_empty_def)
  with g l show ?thesis by simp
qed

theorem fallback_scenario_witness:
  "map itemIds (generateFallbackOutfits three_items None None) = [[''a'', ''b''], [''c'']]
   \<and> length (generateFallbackOutfits three_items None None) \<ge> 2
   \<and> (\<exists>r. POST_suggest \<lparr>x_user_id = Some ''u1'', x_forwarded_for = None\<rparr>
              \<lparr>b_userId = Some ''u1'', b_occasion = None, b_season = None, b_weather = None,
               b_style = None\<rparr> True AI_throws
              \<lparr>db_items = three_items, db_history = [], db_audit = [], db_users = [''u1'']\<rparr> = Inr r
          \<and> fallback r \<and> map itemIds (suggestions r) = [[''a'', ''b''], [''c'']])"
  using fallback_scenario [of "example_item ''a'' ''u1'' ''TOP''" "example_item ''b'' ''u1'' ''BOTTOM''"
      "example_item ''c'' ''u1'' ''DRESS''" "\<lparr>x_user_id = Some ''u1'', x_forwarded_for = None\<rparr>" "''u1''"
      "\<lparr>b_userId = Some ''u1'', b_occasion = None, b_season = None, b_weather = None, b_style = None\<rparr>"
      "\<lparr>db_items = three_items, db_history = [], db_audit = [], db_users = [''u1'']\<rparr>" None None]
  by (simp add: three_items_def example_item_def getAuthenticatedUserId_def)

subsection \<open>Validation and supplement of the AI's proposals\<close>












subsection \<open>Lookup after an update\<close>

lemma findByIdAndUpdate_fst:
  "fst (findByIdAndUpdate j f ts xs) = map_option (\<lambda>x. (f x)\<lparr>updatedAt := ts\<rparr>) (findById xs j)"
  by (induction xs) (auto simp: findById_def split: prod.splits)

lemma findByIdAndUpdate_snd:
  "(\<And>y. item_id (f y) = item_id y) \<Longrightarrow>
   findById (snd (findByIdAndUpdate j f ts xs)) i =
     (if i = j then map_option (\<lambda>x. (f x)\<lparr>updatedAt := ts\<rparr>) (findById xs i) else findById xs i)"
  by (induction xs) (auto simp: findById_def split: prod.splits)

lemma findByIdAndUpdate_replaces:
  "findById xs j = Some x \<Longrightarrow>
   length (takeWhile (\<lambda>y. item_id y \<noteq> j) xs) < length xs
   \<and> xs ! length (takeWhile (\<lambda>y. item_id y \<noteq> j) xs) = x
   \<and> snd (findByIdAndUpdate j f ts xs) =
       xs[length (takeWhile (\<lambda>y. item_id y \<noteq> j) xs) := (f x)\<lparr>updatedAt := ts\<rparr>]"
  by (induction xs) (auto simp: findById_def split: prod.splits if_splits)

subsection \<open>Laundry actions\<close>

lemma laundry_015_owner:
  assumes "getAuthenticatedUserId req = Some u" "u \<noteq> []"
    "findById (db_items d) i = Some x" "userId x = u"
    "laundry_switch (Some a) = Some (st, h)"
  shows "laundry_015_sets req a i ts d
           (x\<lparr>laundryStatus := st,
              usageCount := (if a = ''mark_worn'' \<or> a = ''mark_laundry'' then usageCount x + 1
                             else usageCount x),
              updatedAt := ts\<rparr>)"
proof -
  let ?f = "\<lambda>x. x\<lparr>laundryStatus := st,
              usageCount := (if Some a = Some ''mark_worn'' \<or> Some a = Some ''mark_laundry'' then usageCount x + 1
                             else usageCount x)\<rparr>"
  obtain r its where r: "findByIdAndUpdate i ?f ts (db_items d) = (r, its)" by force
  have 1: "r = Some ((?f x)\<lparr>updatedAt := ts\<rparr>)"
    using findByIdAndUpdate_fst[of i ?f ts "db_items d"] r assms(3) by simp
  have 2: "findById its i = Some ((?f x)\<lparr>updatedAt := ts\<rparr>)"
    using findByIdAndUpdate_snd[of ?f i ts "db_items d" i] r assms(3) by simp
  show ?thesis
    unfolding laundry_015_sets_def POST_laundry_015_def
    using assms r 1 2 by (simp add: Let_def)
qed

lemma laundry_003_owner:
  assumes "getAuthenticatedUserId req = Some u" "u \<noteq> []"
    "findById (db_items d) i = Some x" "userId x = u"
    "laundry_switch (Some a) = Some (st, h)"
  shows "laundry_003_sets req a i ts_inc ts d
           (x\<lparr>laundryStatus := st,
              usageCount := (if a = ''mark_worn'' then usageCount x + 1 else usageCount x),
              updatedAt := ts\<rparr>)"
proof -
  let ?g = "\<lambda>x. x\<lparr>usageCount := usageCount x + 1\<rparr>"
  let ?f = "\<lambda>x. x\<lparr>laundryStatus := st\<rparr>"
  let ?its1 = "if Some a = Some ''mark_worn'' then snd (findByIdAndUpdate i ?g ts_inc (db_items d)) else db_items d"
  let ?x1 = "if a = ''mark_worn'' then (?g x)\<lparr>updatedAt := ts_inc\<rparr> else x"
  have f1: "findById ?its1 i = Some ?x1"
    using findByIdAndUpdate_snd[of ?g i ts_inc "db_items d" i] assms(3) by simp
  obtain r its where r: "findByIdAndUpdate i ?f ts ?its1 = (r, its)" by force
  have 1: "r = Some ((?f ?x1)\<lparr>updatedAt := ts\<rparr>)"
    using findByIdAndUpdate_fst[of i ?f ts ?its1] r f1 by simp
  have 2: "findById its i = Some ((?f ?x1)\<lparr>updatedAt := ts\<rparr>)"
    using findByIdAndUpdate_snd[of ?f i ts ?its1 i] r f1 by simp
  show ?thesis
    unfolding laundry_003_sets_def POST_laundry_003_def
    using assms r 1 2 by (simp add: Let_def)
qed

lemma laundry_invalid:
  assumes "getAuthenticatedUserId req = Some u" "u \<noteq> []"
    "findById (db_items d) i = Some x" "userId x = u"
    "laundry_switch action = None"
  shows "POST_laundry_015 req action i ts d = (Inl (400, ''Invalid action''), d)"
    and "POST_laundry_003 req action i ts_inc ts d = (Inl (400, ''Invalid action''), d)"
  using assms by (simp_all add: POST_laundry_015_def POST_laundry_003_def)

text \<open>
  Claim C2, as stated, fails for the handler of \<open>part_003\<close>: \<open>mark_laundry\<close> sets the
  status and leaves \<open>usageCount\<close> as it was (here 0), since only its \<open>mark_worn\<close> case
  increments.
\<close>

theorem laundry_003_mark_laundry_keeps_count:
  "map usageCount (db_items example_db) = [0, 0]
   \<and> map usageCount (db_items (snd (POST_laundry_003 (example_req ''u1'') (Some ''mark_laundry'') ''i1''
        60 61 example_db))) = [0, 0]
   \<and> map laundryStatus (db_items (snd (POST_laundry_003 (example_req ''u1'') (Some ''mark_laundry'') ''i1''
        60 61 example_db))) = [''IN_LAUNDRY'', ''IN_WARDROBE'']"
  by (simp add: example_db_def example_req_def example_item_def
      POST_laundry_003_def getAuthenticatedUserId_def findById_def laundry_switch_def Let_def)

text \<open>
  Claim C2, amended. For an existing item owned by the caller, both laundry handlers set
  \<open>laundryStatus\<close> to the action's target state (\<open>mark_laundry\<close> to \<open>IN_LAUNDRY\<close>,
  \<open>mark_clean\<close> to \<open>CLEAN\<close>, \<open>mark_worn\<close> to \<open>IN_WARDROBE\<close>, \<open>mark_away\<close> to
  \<open>AWAY\<close>), answer with the updated document, and reject every other action string with
  400 "Invalid action", leaving the database as it was. \<open>mark_worn\<close> increments
  \<open>usageCount\<close> by 1 in both handlers; \<open>mark_laundry\<close> increments it by 1 in the handler
  of \<open>part_015\<close> and leaves it unchanged in the handler of \<open>part_003\<close>; \<open>mark_clean\<close>
  and \<open>mark_away\<close> leave it unchanged. (With every such update the document's
  \<open>updatedAt\<close> stamp becomes the time of the update; no other field changes.)
\<close>

theorem laundry_actions_effect:
  assumes "getAuthenticatedUserId req = Some u" "u \<noteq> []"
    and "findById (db_items d) i = Some x" "userId x = u"
  shows "(a = ''mark_laundry'' \<longrightarrow>
            laundry_015_sets req a i ts d
              (x\<lparr>laundryStatus := ''IN_LAUNDRY'', usageCount := usageCount x + 1, updatedAt := ts\<rparr>)
          \<and> laundry_003_sets req a i ts_inc ts d (x\<lparr>laundryStatus := ''IN_LAUNDRY'', updatedAt := ts\<rparr>))
     \<and> (a = ''mark_clean'' \<longrightarrow>
            laundry_015_sets req a i ts d (x\<lparr>laundryStatus := ''CLEAN'', updatedAt := ts\<rparr>)
          \<and> laundry_003_sets req a i ts_inc ts d (x\<lparr>laundryStatus := ''CLEAN'', updatedAt := ts\<rparr>))
     \<and> (a = ''mark_worn'' \<longrightarrow>
            laundry_015_sets req a i ts d
              (x\<lparr>laundryStatus := ''IN_WARDROBE'', usageCount := usageCount x + 1, updatedAt := ts\<rparr>)
          \<and> laundry_003_sets req a i ts_inc ts d
              (x\<lparr>laundryStatus := ''IN_WARDROBE'', usageCount := usageCount x + 1, updatedAt := ts\<rparr>))
     \<and> (a = ''mark_away'' \<longrightarrow>
            laundry_015_sets req a i ts d (x\<lparr>laundryStatus := ''AWAY'', updatedAt := ts\<rparr>)
          \<and> laundry_003_sets req a i ts_inc ts d (x\<lparr>laundryStatus := ''AWAY'', updatedAt := ts\<rparr>))
     \<and> (a \<notin> {''mark_laundry'', ''mark_clean'', ''mark_worn'', ''mark_away''} \<longrightarrow>
            POST_laundry_015 req (Some a) i ts d = (Inl (400, ''Invalid action''), d)
          \<and> POST_laundry_003 req (Some a) i ts_inc ts d = (Inl (400, ''Invalid action''), d))"
proof -
  have sw: "\<And>st h. laundry_switch (Some a) = Some (st, h) \<Longrightarrow>
      laundry_015_sets req a i ts d
           (x\<lparr>laundryStatus := st,
              usageCount := (if a = ''mark_worn'' \<or> a = ''mark_laundry'' then usageCount x + 1
                             else usageCount x),
              updatedAt := ts\<rparr>)
    \<and> laundry_003_sets req a i ts_inc ts d
           (x\<lparr>laundryStatus := st,
              usageCount := (if a = ''mark_worn'' then usageCount x + 1 else usageCount x),
              updatedAt := ts\<rparr>)"
    using laundry_015_owner[OF assms] laundry_003_owner[OF assms] by blast
  have 1: "a = ''mark_laundry'' \<Longrightarrow> laundry_switch (Some a) = Some (''IN_LAUNDRY'', ''MARKED_LAUNDRY'')"
    and 2: "a = ''mark_clean'' \<Longrightarrow> laundry_switch (Some a) = Some (''CLEAN'', ''RETURNED'')"
    and 3: "a = ''mark_worn'' \<Longrightarrow> laundry_switch (Some a) = Some (''IN_WARDROBE'', ''WORN'')"
    and 4: "a = ''mark_away'' \<Longrightarrow> laundry_switch (Some a) = Some (''AWAY'', ''EDITED'')"
    and 5: "a \<notin> {''mark_laundry'', ''mark_clean'', ''mark_worn'', ''mark_away''} \<Longrightarrow> laundry_switch (Some a) = None"
    by (simp_all add: laundry_switch_def)
  show ?thesis
    using sw[OF 1] sw[OF 2] sw[OF 3] sw[OF 4] laundry_invalid[OF assms 5]
    by simp
qed

theorem laundry_actions_effect_witness:
  "laundry_015_sets (example_req ''u1'') ''mark_laundry'' ''i1'' 61 example_db
      ((example_item ''i1'' ''u1'' ''TOP'')\<lparr>laundryStatus := ''IN_LAUNDRY'', usageCount := 1,
         updatedAt := 61\<rparr>)
   \<and> laundry_003_sets (example_req ''u1'') ''mark_laundry'' ''i1'' 60 61 example_db
      ((example_item ''i1'' ''u1'' ''TOP'')\<lparr>laundryStatus := ''IN_LAUNDRY'', updatedAt := 61\<rparr>)
   \<and> POST_laundry_015 (example_req ''u1'') (Some ''wash'') ''i1'' 61 example_db
       = (Inl (400, ''Invalid action''), example_db)"
  using laundry_actions_effect [of "example_req ''u1''" "''u1''" example_db "''i1''"
      "example_item ''i1'' ''u1'' ''TOP''" "''mark_laundry''" 61 60]
    laundry_actions_effect [of "example_req ''u1''" "''u1''" example_db "''i1''"
      "example_item ''i1'' ''u1'' ''TOP''" "''wash''" 61 60]
  by (simp add: example_req_def getAuthenticatedUserId_def example_db_def findById_def example_item_def)

text \<open>
  Claim C4, as stated, fails in both handlers. In the handler of \<open>part_015\<close>,
  \<open>mark_laundry\<close> on an item that is already \<open>IN_LAUNDRY\<close> increments its
  \<open>usageCount\<close>; and in the handler of \<open>part_003\<close> the update rewrites the
  item's \<open>updatedAt\<close> stamp (here from 0 to 61). In both the stored item changes.
\<close>

theorem laundry_015_mark_laundry_again_increments:
  "map laundryStatus (db_items in_laundry_db) = [''IN_LAUNDRY'']
   \<and> map usageCount (db_items in_laundry_db) = [0]
   \<and> map updatedAt (db_items in_laundry_db) = [0]
   \<and> map usageCount (db_items (snd (POST_laundry_015 (example_req ''u1'') (Some ''mark_laundry'') ''i1''
         61 in_laundry_db))) = [1]
   \<and> db_items (snd (POST_laundry_015 (example_req ''u1'') (Some ''mark_laundry'') ''i1'' 61 in_laundry_db))
       \<noteq> db_items in_laundry_db
   \<and> map updatedAt (db_items (snd (POST_laundry_003 (example_req ''u1'') (Some ''mark_laundry'') ''i1''
         60 61 in_laundry_db))) = [61]
   \<and> db_items (snd (POST_laundry_003 (example_req ''u1'') (Some ''mark_laundry'') ''i1'' 60 61
         in_laundry_db)) \<noteq> db_items in_laundry_db"
  by (simp add: in_laundry_db_def example_req_def example_item_def
      POST_laundry_015_def POST_laundry_003_def getAuthenticatedUserId_def findById_def
      laundry_switch_def Let_def)

text \<open>
  Claim C4, amended. \<open>mark_laundry\<close> by the owner on an item that is already
  \<open>IN_LAUNDRY\<close>. In the handler of \<open>part_003\<close> no field of the item changes except its
  \<open>updatedAt\<close> stamp, which the update sets to the time of the call; every other document
  of the items collection is as it was, and a \<open>MARKED_LAUNDRY\<close> entry is appended to the
  history. In the handler of \<open>part_015\<close> the item keeps its status and every other field
  but \<open>usageCount\<close>, which grows by 1, and the \<open>updatedAt\<close> stamp; every other document
  is as it was, and a \<open>MARKED_LAUNDRY\<close> entry is appended as well. (\<open>k\<close> is the place
  of the item in the collection.)
\<close>

theorem mark_laundry_again:
  assumes "getAuthenticatedUserId req = Some u" "u \<noteq> []"
    and "findById (db_items d) i = Some x" "userId x = u" "laundryStatus x = ''IN_LAUNDRY''"
  shows "(\<exists>k<length (db_items d). db_items d ! k = x
            \<and> db_items (snd (POST_laundry_003 req (Some ''mark_laundry'') i ts_inc ts d)) =
                (db_items d)[k := x\<lparr>updatedAt := ts\<rparr>]
            \<and> db_items (snd (POST_laundry_015 req (Some ''mark_laundry'') i ts d)) =
                (db_items d)[k := x\<lparr>usageCount := usageCount x + 1, updatedAt := ts\<rparr>])
     \<and> fst (POST_laundry_003 req (Some ''mark_laundry'') i ts_inc ts d) =
         Inr (Some (x\<lparr>updatedAt := ts\<rparr>))
     \<and> findById (db_items (snd (POST_laundry_003 req (Some ''mark_laundry'') i ts_inc ts d))) i =
         Some (x\<lparr>updatedAt := ts\<rparr>)
     \<and> db_history (snd (POST_laundry_003 req (Some ''mark_laundry'') i ts_inc ts d)) =
         db_history d @ [\<lparr>h_itemId = i, h_action = ''MARKED_LAUNDRY'', h_performedBy = u,
                          h_notes = ''Status changed to IN_LAUNDRY''\<rparr>]
     \<and> findById (db_items (snd (POST_laundry_015 req (Some ''mark_laundry'') i ts d))) i =
         Some (x\<lparr>usageCount := usageCount x + 1, updatedAt := ts\<rparr>)
     \<and> db_history (snd (POST_laundry_015 req (Some ''mark_laundry'') i ts d)) =
         db_history d @ [\<lparr>h_itemId = i, h_action = ''MARKED_LAUNDRY'', h_performedBy = u,
                          h_notes = ''Item marked as worn / moved to laundry. Usage count: '' @
                                    string_of_int (usageCount x + 1)\<rparr>]"
proof -
  let ?f = "\<lambda>x. x\<lparr>laundryStatus := ''IN_LAUNDRY''\<rparr>"
  let ?g = "\<lambda>x. x\<lparr>laundryStatus := ''IN_LAUNDRY'', usageCount := usageCount x + 1\<rparr>"
  have fx: "(?f x)\<lparr>updatedAt := ts\<rparr> = x\<lparr>updatedAt := ts\<rparr>" using assms(5) by simp
  have gx: "(?g x)\<lparr>updatedAt := ts\<rparr> = x\<lparr>usageCount := usageCount x + 1, updatedAt := ts\<rparr>"
    using assms(5) by simp
  obtain r its where r: "findByIdAndUpdate i ?f ts (db_items d) = (r, its)" by force
  obtain r' its' where r': "findByIdAndUpdate i ?g ts (db_items d) = (r', its')" by force
  let ?k = "length (takeWhile (\<lambda>y. item_id y \<noteq> i) (db_items d))"
  have pos: "?k < length (db_items d) \<and> db_items d ! ?k = x
      \<and> its = (db_items d)[?k := x\<lparr>updatedAt := ts\<rparr>]
      \<and> its' = (db_items d)[?k := x\<lparr>usageCount := usageCount x + 1, updatedAt := ts\<rparr>]"
    using findByIdAndUpdate_replaces[OF assms(3), of ?f ts]
      findByIdAndUpdate_replaces[OF assms(3), of ?g ts] r r' fx gx by simp
  have 1: "r = Some (x\<lparr>updatedAt := ts\<rparr>)"
    using findByIdAndUpdate_fst[of i ?f ts "db_items d"] r assms(3) fx by simp
  have 2: "findById its i = Some (x\<lparr>updatedAt := ts\<rparr>)"
    using findByIdAndUpdate_snd[of ?f i ts "db_items d" i] r assms(3) fx by simp
  have r1: "r' = Some (x\<lparr>usageCount := usageCount x + 1, updatedAt := ts\<rparr>)"
    using findByIdAndUpdate_fst[of i ?g ts "db_items d"] r' assms(3) gx by simp
  have r2: "findById its' i = Some (x\<lparr>usageCount := usageCount x + 1, updatedAt := ts\<rparr>)"
    using findByIdAndUpdate_snd[of ?g i ts "db_items d" i] r' assms(3) gx by simp
  have a3: "db_items (snd (POST_laundry_003 req (Some ''mark_laundry'') i ts_inc ts d)) = its"
    and b3: "fst (POST_laundry_003 req (Some ''mark_laundry'') i ts_inc ts d) = Inr r"
    and c3: "db_history (snd (POST_laundry_003 req (Some ''mark_laundry'') i ts_inc ts d)) =
         db_history d @ [\<lparr>h_itemId = i, h_action = ''MARKED_LAUNDRY'', h_performedBy = u,
                          h_notes = ''Status changed to IN_LAUNDRY''\<rparr>]"
    using assms(1-4) r by (simp_all add: POST_laundry_003_def laundry_switch_def)
  have a5: "db_items (snd (POST_laundry_015 req (Some ''mark_laundry'') i ts d)) = its'"
    and c5: "db_history (snd (POST_laundry_015 req (Some ''mark_laundry'') i ts d)) =
         db_history d @ [\<lparr>h_itemId = i, h_action = ''MARKED_LAUNDRY'', h_performedBy = u,
                          h_notes = ''Item marked as worn / moved to laundry. Usage count: '' @
                                    string_of_int (usageCount x + 1)\<rparr>]"
    using assms(1-4) r' r1 by (simp_all add: POST_laundry_015_def laundry_switch_def)
  have ex: "\<exists>k<length (db_items d). db_items d ! k = x
            \<and> db_items (snd (POST_laundry_003 req (Some ''mark_laundry'') i ts_inc ts d)) =
                (db_items d)[k := x\<lparr>updatedAt := ts\<rparr>]
            \<and> db_items (snd (POST_laundry_015 req (Some ''mark_laundry'') i ts d)) =
                (db_items d)[k := x\<lparr>usageCount := usageCount x + 1, updatedAt := ts\<rparr>]"
    using pos a3 a5 by blast
  from ex 1 2 r2 a3 b3 c3 a5 c5 show ?thesis by simp
qed

theorem mark_laundry_again_witness:
  "db_items (snd (POST_laundry_003 (example_req ''u1'') (Some ''mark_laundry'') ''i1'' 60 61 in_laundry_db))
     = [(example_item ''i1'' ''u1'' ''TOP'')\<lparr>laundryStatus := ''IN_LAUNDRY'', updatedAt := 61\<rparr>]
   \<and> db_items (snd (POST_laundry_015 (example_req ''u1'') (Some ''mark_laundry'') ''i1'' 61 in_laundry_db))
     = [(example_item ''i1'' ''u1'' ''TOP'')\<lparr>laundryStatus := ''IN_LAUNDRY'', usageCount := 1,
          updatedAt := 61\<rparr>]
   \<and> map h_action (db_history (snd (POST_laundry_003 (example_req ''u1'') (Some ''mark_laundry'') ''i1''
        60 61 in_laundry_db))) = [''MARKED_LAUNDRY'']
   \<and> map h_action (db_history (snd (POST_laundry_015 (example_req ''u1'') (Some ''mark_laundry'') ''i1''
        61 in_laundry_db))) = [''MARKED_LAUNDRY'']"
proof -
  let ?x = "(example_item ''i1'' ''u1'' ''TOP'')\<lparr>laundryStatus := ''IN_LAUNDRY''\<rparr>"
  have pre: "getAuthenticatedUserId (example_req ''u1'') = Some ''u1''" "''u1'' \<noteq> []"
    "findById (db_items in_laundry_db) ''i1'' = Some ?x" "userId ?x = ''u1''"
    "laundryStatus ?x = ''IN_LAUNDRY''"
    by (simp_all add: example_req_def getAuthenticatedUserId_def in_laundry_db_def findById_def
        example_item_def)
  have items: "db_items in_laundry_db = [?x]" "db_history in_laundry_db = []"
    by (simp_all add: in_laundry_db_def)
  from mark_laundry_again [OF pre, of 60 61] items show ?thesis
    by (auto simp: example_item_def)
qed

subsection \<open>The usage count never decreases\<close>

lemma updateData_item_id [simp]: "item_id (updateData b x) = item_id x"
  by (simp add: updateData_def)

lemma updateData_usageCount [simp]: "usageCount (updateData b x) = usageCount x"
  by (simp add: updateData_def)

lemma PUT_item_keeps_count:
  assumes "findById (db_items d) i = Some x"
  shows "\<exists>x'. findById (db_items (snd (PUT_item w req b j ts d))) i = Some x'
            \<and> usageCount x' = usageCount x"
proof -
  obtain r its where r: "findByIdAndUpdate j (updateData b) ts (db_items d) = (r, its)" by force
  have "findById its i =
      (if i = j then map_option (\<lambda>x. (updateData b x)\<lparr>updatedAt := ts\<rparr>) (findById (db_items d) i)
       else findById (db_items d) i)"
    using findByIdAndUpdate_snd[of "updateData b" j ts "db_items d" i] r by simp
  with assms have "\<exists>x'. findById its i = Some x' \<and> usageCount x' = usageCount x" by auto
  with assms r show ?thesis
    by (auto simp: PUT_item_def split: option.splits)
qed

lemma laundry_015_count:
  assumes "findById (db_items d) i = Some x"
  shows "\<exists>x'. findById (db_items (snd (POST_laundry_015 req action j ts d))) i = Some x'
            \<and> usageCount x \<le> usageCount x'"
proof -
  have upd: "\<And>f. (\<And>y. item_id (f y) = item_id y) \<Longrightarrow> (\<And>y. usageCount y \<le> usageCount (f y)) \<Longrightarrow>
     \<exists>x'. findById (snd (findByIdAndUpdate j f ts (db_items d))) i = Some x' \<and> usageCount x \<le> usageCount x'"
    using assms by (auto simp: findByIdAndUpdate_snd)
  show ?thesis
  proof (cases "\<exists>u e st h. getAuthenticatedUserId req = Some u \<and> u \<noteq> [] \<and> findById (db_items d) j = Some e
      \<and> userId e = u \<and> laundry_switch action = Some (st, h)")
    case True
    then obtain u e st h where t: "getAuthenticatedUserId req = Some u" "u \<noteq> []" "findById (db_items d) j = Some e"
      "userId e = u" "laundry_switch action = Some (st, h)" by blast
    let ?f = "\<lambda>x. x\<lparr>laundryStatus := st,
        usageCount := (if action = Some ''mark_worn'' \<or> action = Some ''mark_laundry'' then usageCount x + 1 else usageCount x)\<rparr>"
    obtain r its where r: "findByIdAndUpdate j ?f ts (db_items d) = (r, its)" by force
    from upd[of ?f] r have "\<exists>x'. findById its i = Some x' \<and> usageCount x \<le> usageCount x'" by simp
    with t r show ?thesis by (auto simp: POST_laundry_015_def Let_def split: option.splits)
  next
    case False
    then have "snd (POST_laundry_015 req action j ts d) = d"
      by (auto simp: POST_laundry_015_def split: option.splits)
    with assms show ?thesis by simp
  qed
qed

lemma laundry_003_count:
  assumes "findById (db_items d) i = Some x"
  shows "\<exists>x'. findById (db_items (snd (POST_laundry_003 req action j ts_inc ts d))) i = Some x'
            \<and> usageCount x \<le> usageCount x'"
proof (cases "\<exists>u e st h. getAuthenticatedUserId req = Some u \<and> u \<noteq> [] \<and> findById (db_items d) j = Some e
      \<and> userId e = u \<and> laundry_switch action = Some (st, h)")
  case True
  then obtain u e st h where t: "getAuthenticatedUserId req = Some u" "u \<noteq> []" "findById (db_items d) j = Some e"
      "userId e = u" "laundry_switch action = Some (st, h)" by blast
  let ?g = "\<lambda>x. x\<lparr>usageCount := usageCount x + 1\<rparr>"
  let ?f = "\<lambda>x. x\<lparr>laundryStatus := st\<rparr>"
  let ?its1 = "if action = Some ''mark_worn'' then snd (findByIdAndUpdate j ?g ts_inc (db_items d)) else db_items d"
  have 1: "\<exists>x1. findById ?its1 i = Some x1 \<and> usageCount x \<le> usageCount x1"
    using assms by (auto simp: findByIdAndUpdate_snd)
  obtain r its where r: "findByIdAndUpdate j ?f ts ?its1 = (r, its)" by force
  have "findById its i =
      (if i = j then map_option (\<lambda>x. (?f x)\<lparr>updatedAt := ts\<rparr>) (findById ?its1 i)
       else findById ?its1 i)"
    using findByIdAndUpdate_snd[of ?f j ts ?its1 i] r by simp
  with 1 have "\<exists>x'. findById its i = Some x' \<and> usageCount x \<le> usageCount x'" by auto
  with t r show ?thesis by (auto simp: POST_laundry_003_def Let_def split: option.splits)
next
  case False
  then have "snd (POST_laundry_003 req action j ts_inc ts d) = d"
    by (auto simp: POST_laundry_003_def split: option.splits)
  with assms show ?thesis by simp
qed

lemma api_step_count:
  assumes "findById (db_items d) i = Some x"
  shows "\<exists>x'. findById (db_items (api_step op d)) i = Some x' \<and> usageCount x \<le> usageCount x'"
proof (cases op)
  case (Laundry_015 req a j ts)
  then show ?thesis using laundry_015_count[OF assms] by simp
next
  case (Laundry_003 req a j ts_inc ts)
  then show ?thesis using laundry_003_count[OF assms] by simp
next
  case (Put_route req b j ts)
  then show ?thesis using PUT_item_keeps_count[OF assms, of False req b j ts]
    by (auto simp: PUT_item_route_def)
next
  case (Put_014 req b j ts)
  then show ?thesis using PUT_item_keeps_count[OF assms, of True req b j ts]
    by (auto simp: PUT_item_014_def)
qed

lemma run_ops_count:
  "findById (db_items d) i = Some x \<Longrightarrow>
   \<exists>x'. findById (db_items (run_ops ops d)) i = Some x' \<and> usageCount x \<le> usageCount x'"
proof (induction ops arbitrary: d x)
  case Nil
  then show ?case by simp
next
  case (Cons op ops)
  from api_step_count[OF Cons.prems, of op] obtain x1 where
    x1: "findById (db_items (api_step op d)) i = Some x1" "usageCount x \<le> usageCount x1" by blast
  from Cons.IH[OF x1(1)] x1(2) show ?case by fastforce
qed

text \<open>
  Claim C3. Whatever sequence of laundry actions and updates (favorite toggles among
  them), by whatever callers and on whatever ids, is applied to the database, an item
  that was there is still there and its \<open>usageCount\<close> is at least what it was. An update
  of either handler leaves the \<open>usageCount\<close> of every item exactly as it was, whatever
  the body holds (a \<open>usageCount\<close> key included).
\<close>

theorem usageCount_never_decreases:
  assumes "findById (db_items d) i = Some x"
  shows "(\<exists>x'. findById (db_items (run_ops ops d)) i = Some x' \<and> usageCount x \<le> usageCount x')
       \<and> (\<exists>x'. findById (db_items (snd (PUT_item_route req b j ts d))) i = Some x'
                \<and> usageCount x' = usageCount x)
       \<and> (\<exists>x'. findById (db_items (snd (PUT_item_014 req b j ts d))) i = Some x'
                \<and> usageCount x' = usageCount x)"
  using run_ops_count[OF assms] PUT_item_keeps_count[OF assms]
  by (simp add: PUT_item_route_def PUT_item_014_def)

theorem usageCount_never_decreases_witness:
  "findById (db_items example_db) ''i1'' = Some (example_item ''i1'' ''u1'' ''TOP'')
   \<and> (\<exists>x'. findById (db_items (run_ops example_ops example_db)) ''i1'' = Some x' \<and> 0 \<le> usageCount x')
   \<and> (\<exists>x'. findById (db_items (snd (PUT_item_014 (example_req ''u1'') example_body ''i1'' 20 example_db))) ''i1'' = Some x'
          \<and> usageCount x' = 0)"
  using usageCount_never_decreases [of example_db "''i1''" "example_item ''i1'' ''u1'' ''TOP''"
      example_ops "example_req ''u1''" example_body "''i1''" 20]
  by (simp add: example_db_def findById_def example_item_def)

lemma example_ops_counts: "map usageCount (db_items (run_ops example_ops example_db)) = [2, 0]"
  by (simp add: example_ops_def example_db_def example_req_def example_body_def example_item_def
      POST_laundry_015_def POST_laundry_003_def PUT_item_014_def PUT_item_route_def PUT_item_def
      getAuthenticatedUserId_def findById_def laundry_switch_def updateData_def Let_def)

subsection \<open>Ownership\<close>

text \<open>
  Claim C5. For an authenticated caller and an existing item of another user, the update
  and the delete of both item handlers and both laundry handlers answer 403 "Forbidden"
  and leave the database as it was; for an id that no item has they answer 404 "Item not
  found"; the two answers differ.
\<close>

theorem non_owner_forbidden:
  assumes "getAuthenticatedUserId req = Some u" "u \<noteq> []"
  shows "(findById (db_items d) i = Some x \<and> userId x \<noteq> u \<longrightarrow>
            PUT_item_route req b i ts d = (Inl (403, ''Forbidden''), d)
          \<and> PUT_item_014 req b i ts d = (Inl (403, ''Forbidden''), d)
          \<and> DELETE_item_route req i d = (Inl (403, ''Forbidden''), d)
          \<and> DELETE_item_014 req i d = (Inl (403, ''Forbidden''), d)
          \<and> POST_laundry_015 req action i ts d = (Inl (403, ''Forbidden''), d)
          \<and> POST_laundry_003 req action i ts_inc ts d = (Inl (403, ''Forbidden''), d))
     \<and> (findById (db_items d) i = None \<longrightarrow>
            PUT_item_route req b i ts d = (Inl (404, ''Item not found''), d)
          \<and> PUT_item_014 req b i ts d = (Inl (404, ''Item not found''), d)
          \<and> DELETE_item_route req i d = (Inl (404, ''Item not found''), d)
          \<and> DELETE_item_014 req i d = (Inl (404, ''Item not found''), d)
          \<and> POST_laundry_015 req action i ts d = (Inl (404, ''Item not found''), d)
          \<and> POST_laundry_003 req action i ts_inc ts d = (Inl (404, ''Item not found''), d))
     \<and> (403, ''Forbidden'') \<noteq> ((404, ''Item not found'') :: http_error)"
  using assms
  by (simp add: PUT_item_route_def PUT_item_014_def PUT_item_def DELETE_item_route_def
      DELETE_item_014_def POST_laundry_015_def POST_laundry_003_def)

theorem non_owner_forbidden_witness:
  "PUT_item_route (example_req ''u1'') example_body ''i2'' 20 example_db = (Inl (403, ''Forbidden''), example_db)
   \<and> PUT_item_014 (example_req ''u1'') example_body ''i2'' 20 example_db = (Inl (403, ''Forbidden''), example_db)
   \<and> DELETE_item_route (example_req ''u1'') ''i2'' example_db = (Inl (403, ''Forbidden''), example_db)
   \<and> DELETE_item_014 (example_req ''u1'') ''i2'' example_db = (Inl (403, ''Forbidden''), example_db)
   \<and> POST_laundry_015 (example_req ''u1'') (Some ''mark_worn'') ''i2'' 20 example_db = (Inl (403, ''Forbidden''), example_db)
   \<and> POST_laundry_003 (example_req ''u1'') (Some ''mark_worn'') ''i2'' 19 20 example_db = (Inl (403, ''Forbidden''), example_db)
   \<and> DELETE_item_014 (example_req ''u1'') ''i9'' example_db = (Inl (404, ''Item not found''), example_db)"
  using non_owner_forbidden [of "example_req ''u1''" "''u1''" example_db "''i2''"
      "example_item ''i2'' ''u2'' ''DRESS''" example_body 20 "Some ''mark_worn''" 19]
    non_owner_forbidden [of "example_req ''u1''" "''u1''" example_db "''i9''"
      "example_item ''i2'' ''u2'' ''DRESS''" example_body 20 "Some ''mark_worn''" 19]
  by (simp add: example_req_def getAuthenticatedUserId_def example_db_def findById_def example_item_def)

subsection \<open>Retry with backoff\<close>

lemma doubling_closed_form: "doubling delay n = map (\<lambda>j. delay * 2 ^ j) [0..<n]"
proof (induction n arbitrary: delay)
  case 0
  show ?case by simp
next
  case (Suc n)
  have "[0..<Suc n] = 0 # map Suc [0..<n]"
    by (simp add: upt_conv_Cons map_Suc_upt del: upt_Suc)
  then show ?case using Suc[of "delay * 2"] by (simp add: comp_def mult.assoc del: upt_Suc)
qed

lemma retriable_not_ok: "status r \<ge> 500 \<or> status r = 429 \<Longrightarrow> \<not> ok r"
  by (auto simp: ok_def)

lemma backoff_delays:
  "\<exists>n\<le>retries. snd (fetchWithBackoff fetch k retries delay) = doubling delay n"
proof (induction retries arbitrary: k delay)
  case 0
  show ?case by (auto simp: split: fetch_outcome.splits)
next
  case (Suc retries)
  from Suc[of "k + 1" "delay * 2"] obtain n where
    n: "n \<le> retries" "snd (fetchWithBackoff fetch (k + 1) retries (delay * 2)) = doubling (delay * 2) n"
    by blast
  have "snd (fetchWithBackoff fetch k (Suc retries) delay) = doubling delay 0
      \<or> snd (fetchWithBackoff fetch k (Suc retries) delay) = doubling delay (Suc n)"
    using n(2) by (auto simp: after_delay_def split: fetch_outcome.splits)
  with n(1) show ?case by (metis Suc_le_mono le0)
qed

lemma retry_delays:
  "\<exists>n\<le>retries. snd (fetchWithRetry fetch k retries delay) = doubling delay n"
proof (induction retries arbitrary: k delay)
  case 0
  show ?case by (auto simp: split: fetch_outcome.splits)
next
  case (Suc retries)
  from Suc[of "k + 1" "delay * 2"] obtain n where
    n: "n \<le> retries" "snd (fetchWithRetry fetch (k + 1) retries (delay * 2)) = doubling (delay * 2) n"
    by blast
  have "snd (fetchWithRetry fetch k (Suc retries) delay) = doubling delay 0
      \<or> snd (fetchWithRetry fetch k (Suc retries) delay) = doubling delay (Suc n)"
    using n(2) by (auto simp: after_delay_def split: fetch_outcome.splits)
  with n(1) show ?case by (metis Suc_le_mono le0)
qed

lemma backoff_exhaust:
  assumes "\<forall>j\<le>retries. retriable (fetch (k + j))"
  shows "snd (fetchWithBackoff fetch k retries delay) = doubling delay retries
    \<and> fst (fetchWithBackoff fetch k retries delay) =
        (case fetch (k + retries) of Fetch_throws err \<Rightarrow> Inl err
         | Fetch_response r \<Rightarrow> Inl (''HTTP '' @ string_of_nat (status r) @ '': '' @ safeText r))"
  using assms
proof (induction retries arbitrary: k delay)
  case 0
  then show ?case
    by (auto simp: retriable_def retriable_not_ok split: fetch_outcome.splits)
next
  case (Suc retries)
  have "\<forall>j\<le>retries. retriable (fetch (k + 1 + j))"
    using Suc.prems by (auto dest: spec[of _ "Suc _"])
  from Suc.IH[OF this, of "delay * 2"] Suc.prems[rule_format, of 0]
  show ?case
    by (auto simp: after_delay_def retriable_def retriable_not_ok split: fetch_outcome.splits)
qed

lemma retry_exhaust:
  assumes "\<forall>j\<le>retries. retriable (fetch (k + j))"
  shows "snd (fetchWithRetry fetch k retries delay) = doubling delay retries
    \<and> fst (fetchWithRetry fetch k retries delay) =
        (case fetch (k + retries) of Fetch_throws err \<Rightarrow> Inl err
         | Fetch_response r \<Rightarrow> Inr r)"
  using assms
proof (induction retries arbitrary: k delay)
  case 0
  then show ?case
    by (auto simp: retriable_def retriable_not_ok split: fetch_outcome.splits)
next
  case (Suc retries)
  have "\<forall>j\<le>retries. retriable (fetch (k + 1 + j))"
    using Suc.prems by (auto dest: spec[of _ "Suc _"])
  from Suc.IH[OF this, of "delay * 2"] Suc.prems[rule_format, of 0]
  show ?case
    by (auto simp: after_delay_def retriable_def retriable_not_ok split: fetch_outcome.splits)
qed

lemma backoff_stops:
  assumes "\<forall>j<n. retriable (fetch (k + j))" "fetch (k + n) = Fetch_response r"
    "\<not> (status r \<ge> 500 \<or> status r = 429)" "n \<le> retries"
  shows "fetchWithBackoff fetch k retries delay = (Inr r, doubling delay n)"
  using assms
proof (induction retries arbitrary: k delay n)
  case 0
  then show ?case by auto
next
  case (Suc retries)
  show ?case
  proof (cases n)
    case 0
    with Suc.prems show ?thesis by auto
  next
    case (Suc m)
    have a: "\<forall>j<m. retriable (fetch (k + 1 + j))"
      using Suc.prems(1) Suc by (auto dest: spec[of _ "Suc _"])
    have b: "fetch (k + 1 + m) = Fetch_response r" using Suc.prems(2) Suc by simp
    have c: "m \<le> retries" using Suc.prems(4) Suc by simp
    from Suc.IH[OF a b Suc.prems(3) c, of "delay * 2"] Suc.prems(1)[rule_format, of 0] Suc
    show ?thesis
      by (auto simp: after_delay_def retriable_def retriable_not_ok split: fetch_outcome.splits)
  qed
qed

lemma retry_stops:
  assumes "\<forall>j<n. retriable (fetch (k + j))" "fetch (k + n) = Fetch_response r"
    "\<not> (status r \<ge> 500 \<or> status r = 429)" "n \<le> retries"
  shows "fetchWithRetry fetch k retries delay = (Inr r, doubling delay n)"
  using assms
proof (induction retries arbitrary: k delay n)
  case 0
  then show ?case by auto
next
  case (Suc retries)
  show ?case
  proof (cases n)
    case 0
    with Suc.prems show ?thesis by auto
  next
    case (Suc m)
    have a: "\<forall>j<m. retriable (fetch (k + 1 + j))"
      using Suc.prems(1) Suc by (auto dest: spec[of _ "Suc _"])
    have b: "fetch (k + 1 + m) = Fetch_response r" using Suc.prems(2) Suc by simp
    have c: "m \<le> retries" using Suc.prems(4) Suc by simp
    from Suc.IH[OF a b Suc.prems(3) c, of "delay * 2"] Suc.prems(1)[rule_format, of 0] Suc
    show ?thesis
      by (auto simp: after_delay_def retriable_def retriable_not_ok split: fetch_outcome.splits)
  qed
qed

lemma doubling_length [simp]: "length (doubling delay n) = n"
  by (induction n arbitrary: delay) auto

lemma doubling_1000:
  "doubling 1000 5 = [1000, 2000, 4000, 8000, 16000]" "doubling 1000 3 = [1000, 2000, 4000]"
  by (simp_all add: eval_nat_numeral)

lemma doubling_1000_12:
  "doubling 1000 12 =
     [1000, 2000, 4000, 8000, 16000, 32000, 64000, 128000, 256000, 512000, 1024000, 2048000]"
proof -
  have n: "(12::nat) = Suc (Suc (Suc (Suc (Suc (Suc (Suc (Suc (Suc (Suc (Suc (Suc 0)))))))))))"
    by simp
  show ?thesis by (subst n) simp
qed

lemma backoff_default_exhaust:
  assumes "\<forall>j\<le>5. retriable (fetch j)"
  shows "fetchWithBackoff_default fetch =
    (case fetch 5 of Fetch_throws err \<Rightarrow> Inl err
     | Fetch_response r \<Rightarrow> Inl (''HTTP '' @ string_of_nat (status r) @ '': '' @ safeText r),
     [1000, 2000, 4000, 8000, 16000])"
  using backoff_exhaust[of 5 fetch 0 1000] assms doubling_1000
  by (simp add: fetchWithBackoff_default_def prod_eq_iff)

lemma retry_default_exhaust:
  assumes "\<forall>j\<le>3. retriable (fetch j)"
  shows "fetchWithRetry_default fetch =
    (case fetch 3 of Fetch_throws err \<Rightarrow> Inl err | Fetch_response r \<Rightarrow> Inr r, [1000, 2000, 4000])"
  using retry_exhaust[of 3 fetch 0 1000] assms doubling_1000
  by (simp add: fetchWithRetry_default_def prod_eq_iff)

lemma hf_returns:
  assumes "apiKey \<noteq> []" "fetchWithRetry_default fetch = (res, delays)"
    "\<forall>r. res = Inr r \<longrightarrow> status r \<noteq> 503 \<and> status r \<noteq> 429"
  shows "\<exists>y. hf_analyzeImage (Suc rounds) apiKey fetch json = (Some y, delays)"
  using assms by (auto simp: Let_def split: sum.splits)

lemma hf_never_returns:
  assumes "apiKey \<noteq> []" "s = 503 \<or> s = 429"
    "\<forall>j. \<exists>r. fetch j = Fetch_response r \<and> status r = s
        \<and> \<not> str_includes (case body r of None \<Rightarrow> ''Unknown error'' | Some t \<Rightarrow> t) ''no longer supported''"
  shows "hf_analyzeImage rounds apiKey fetch json =
    (None, concat (replicate rounds [1000, 2000, 4000, if s = 503 then 5000 else 10000]))"
  using assms(3)
proof (induction rounds arbitrary: fetch)
  case 0
  show ?case by simp
next
  case (Suc rounds)
  have ret: "\<forall>j\<le>3. retriable (fetch j)"
  proof (intro allI impI)
    fix j
    from Suc.prems obtain r where "fetch j = Fetch_response r" "status r = s" by blast
    with assms(2) show "retriable (fetch j)" by (auto simp: retriable_def)
  qed
  from Suc.prems obtain r where r: "fetch 3 = Fetch_response r" "status r = s"
    "\<not> str_includes (case body r of None \<Rightarrow> ''Unknown error'' | Some t \<Rightarrow> t) ''no longer supported''"
    by blast
  have w: "fetchWithRetry_default fetch = (Inr r, [1000, 2000, 4000])"
    using retry_default_exhaust[OF ret] r(1) by simp
  have nok: "\<not> ok r" "status r \<noteq> 410" using r(2) assms(2) by (auto simp: ok_def)
  have shifted: "\<forall>j. \<exists>r. fetch (length [1000, 2000, 4000 :: nat] + 1 + j) = Fetch_response r \<and> status r = s
        \<and> \<not> str_includes (case body r of None \<Rightarrow> ''Unknown error'' | Some t \<Rightarrow> t) ''no longer supported''"
    using Suc.prems by blast
  have ih: "hf_analyzeImage rounds apiKey (\<lambda>j. fetch (length [1000, 2000, 4000 :: nat] + 1 + j)) json =
    (None, concat (replicate rounds [1000, 2000, 4000, if s = 503 then 5000 else 10000]))"
    using Suc.IH[of "\<lambda>j. fetch (length [1000, 2000, 4000 :: nat] + 1 + j)"] shifted by simp
  show ?case
    using w nok r(2,3) assms(1,2) ih by (auto simp: Let_def)
qed

text \<open>
  Claim C8, as stated, fails for the HuggingFace adapter. Against a service that answers
  503 to every request, \<open>analyzeImage\<close> has not returned after three runs of its body: it
  has made twelve requests, more than any budget of 3 to 5 retries allows, and the delays
  between them are not a doubling sequence, since after each 4000 ms the client waits
  5000 ms and starts again at 1000 ms.
\<close>

theorem hf_analyzeImage_retries_without_bound:
  "hf_analyzeImage 3 ''hf_key'' always_loading caption_json =
     (None, [1000, 2000, 4000, 5000, 1000, 2000, 4000, 5000, 1000, 2000, 4000, 5000])
   \<and> length (snd (hf_analyzeImage 3 ''hf_key'' always_loading caption_json)) = 12
   \<and> snd (hf_analyzeImage 3 ''hf_key'' always_loading caption_json) \<noteq> doubling 1000 12"
proof -
  have run: "hf_analyzeImage 3 ''hf_key'' always_loading caption_json =
     (None, [1000, 2000, 4000, 5000, 1000, 2000, 4000, 5000, 1000, 2000, 4000, 5000])"
    by code_simp
  show ?thesis unfolding run doubling_1000_12 by simp
qed

text \<open>
  Claim C8, amended. For every call of the adapters' fetch wrappers, and every behaviour
  of the network: the delays waited are a doubling sequence from the first delay, with at
  most \<open>retries\<close> of them; a run of 5xx/429 responses and transport exceptions that ends
  in another response within the budget is retried up to that response, which is
  returned; a 4xx response other than 429 is returned at once, with no retry; when every
  attempt within the budget is a 5xx/429 response or a transport exception, exactly
  \<open>retries\<close> retries are made and then a transport exception is rethrown (a last 5xx/429
  response is thrown as an error by \<open>fetchWithBackoff\<close> and returned by
  \<open>fetchWithRetry\<close>). With the default arguments, which are all the adapters use, the
  budget is 5 retries from 1000 ms in \<open>fetchWithBackoff\<close> (Gemini) and 3 retries from
  1000 ms in \<open>fetchWithRetry\<close> (OpenAI, HuggingFace). The HuggingFace client's
  \<open>analyzeImage\<close> is not bounded by that budget: it returns or throws after one wrapped
  call when that call does not end with a 503 or 429 response, but after a final 503 it
  waits 5000 ms, and after a final 429 10000 ms, and calls itself again, so that against
  a service that always answers 503, or always 429, it never returns.
\<close>

theorem retry_policy:
  "(\<exists>n\<le>retries. snd (fetchWithBackoff fetch k retries delay) = doubling delay n)
   \<and> (\<exists>n\<le>retries. snd (fetchWithRetry fetch k retries delay) = doubling delay n)
   \<and> ((\<forall>j<n. retriable (fetch (k + j))) \<and> fetch (k + n) = Fetch_response r
         \<and> \<not> (status r \<ge> 500 \<or> status r = 429) \<and> n \<le> retries \<longrightarrow>
        fetchWithBackoff fetch k retries delay = (Inr r, doubling delay n)
      \<and> fetchWithRetry fetch k retries delay = (Inr r, doubling delay n))
   \<and> (fetch k = Fetch_response r \<and> 400 \<le> status r \<and> status r < 500 \<and> status r \<noteq> 429 \<longrightarrow>
        fetchWithBackoff fetch k retries delay = (Inr r, [])
      \<and> fetchWithRetry fetch k retries delay = (Inr r, []))
   \<and> ((\<forall>j\<le>retries. retriable (fetch (k + j))) \<longrightarrow>
        snd (fetchWithBackoff fetch k retries delay) = doubling delay retries
      \<and> fst (fetchWithBackoff fetch k retries delay) =
          (case fetch (k + retries) of Fetch_throws err \<Rightarrow> Inl err
           | Fetch_response r \<Rightarrow> Inl (''HTTP '' @ string_of_nat (status r) @ '': '' @ safeText r))
      \<and> snd (fetchWithRetry fetch k retries delay) = doubling delay retries
      \<and> fst (fetchWithRetry fetch k retries delay) =
          (case fetch (k + retries) of Fetch_throws err \<Rightarrow> Inl err | Fetch_response r \<Rightarrow> Inr r))
   \<and> length (snd (fetchWithBackoff_default fetch)) \<le> 5
   \<and> length (snd (fetchWithRetry_default fetch)) \<le> 3
   \<and> ((\<forall>j<n. retriable (fetch j)) \<and> fetch n = Fetch_response r
         \<and> \<not> (status r \<ge> 500 \<or> status r = 429) \<longrightarrow>
        (n \<le> 5 \<longrightarrow> fetchWithBackoff_default fetch = (Inr r, doubling 1000 n))
      \<and> (n \<le> 3 \<longrightarrow> fetchWithRetry_default fetch = (Inr r, doubling 1000 n)))
   \<and> ((\<forall>j\<le>5. retriable (fetch j)) \<longrightarrow>
        fetchWithBackoff_default fetch =
          (case fetch 5 of Fetch_throws err \<Rightarrow> Inl err
           | Fetch_response r \<Rightarrow> Inl (''HTTP '' @ string_of_nat (status r) @ '': '' @ safeText r),
           [1000, 2000, 4000, 8000, 16000]))
   \<and> ((\<forall>j\<le>3. retriable (fetch j)) \<longrightarrow>
        fetchWithRetry_default fetch =
          (case fetch 3 of Fetch_throws err \<Rightarrow> Inl err | Fetch_response r \<Rightarrow> Inr r,
           [1000, 2000, 4000]))
   \<and> (apiKey \<noteq> [] \<and> fetchWithRetry_default fetch = (res, delays)
         \<and> (\<forall>r. res = Inr r \<longrightarrow> status r \<noteq> 503 \<and> status r \<noteq> 429) \<longrightarrow>
        (\<exists>y. hf_analyzeImage (Suc rounds) apiKey fetch json = (Some y, delays)))
   \<and> (apiKey \<noteq> [] \<and> (s = 503 \<or> s = 429)
         \<and> (\<forall>j. \<exists>r. fetch j = Fetch_response r \<and> status r = s
               \<and> \<not> str_includes (case body r of None \<Rightarrow> ''Unknown error'' | Some t \<Rightarrow> t)
                     ''no longer supported'') \<longrightarrow>
        hf_analyzeImage rounds apiKey fetch json =
          (None, concat (replicate rounds [1000, 2000, 4000, if s = 503 then 5000 else 10000])))"
proof -
  have a: "\<exists>n\<le>retries. snd (fetchWithBackoff fetch k retries delay) = doubling delay n"
    by (rule backoff_delays)
  have b: "\<exists>n\<le>retries. snd (fetchWithRetry fetch k retries delay) = doubling delay n"
    by (rule retry_delays)
  have c: "(\<forall>j<n. retriable (fetch (k + j))) \<and> fetch (k + n) = Fetch_response r
         \<and> \<not> (status r \<ge> 500 \<or> status r = 429) \<and> n \<le> retries \<longrightarrow>
        fetchWithBackoff fetch k retries delay = (Inr r, doubling delay n)
      \<and> fetchWithRetry fetch k retries delay = (Inr r, doubling delay n)"
    using backoff_stops[of n fetch k r retries delay] retry_stops[of n fetch k r retries delay]
    by blast
  have d: "fetch k = Fetch_response r \<and> 400 \<le> status r \<and> status r < 500 \<and> status r \<noteq> 429 \<longrightarrow>
        fetchWithBackoff fetch k retries delay = (Inr r, [])
      \<and> fetchWithRetry fetch k retries delay = (Inr r, [])"
    using backoff_stops[of 0 fetch k r retries delay] retry_stops[of 0 fetch k r retries delay]
    by simp
  have e: "(\<forall>j\<le>retries. retriable (fetch (k + j))) \<longrightarrow>
        snd (fetchWithBackoff fetch k retries delay) = doubling delay retries
      \<and> fst (fetchWithBackoff fetch k retries delay) =
          (case fetch (k + retries) of Fetch_throws err \<Rightarrow> Inl err
           | Fetch_response r \<Rightarrow> Inl (''HTTP '' @ string_of_nat (status r) @ '': '' @ safeText r))
      \<and> snd (fetchWithRetry fetch k retries delay) = doubling delay retries
      \<and> fst (fetchWithRetry fetch k retries delay) =
          (case fetch (k + retries) of Fetch_throws err \<Rightarrow> Inl err | Fetch_response r \<Rightarrow> Inr r)"
    using backoff_exhaust[of retries fetch k delay] retry_exhaust[of retries fetch k delay]
    by blast
  have f: "length (snd (fetchWithBackoff_default fetch)) \<le> 5"
    using backoff_delays[of 5 fetch 0 1000] by (auto simp: fetchWithBackoff_default_def)
  have g: "length (snd (fetchWithRetry_default fetch)) \<le> 3"
    using retry_delays[of 3 fetch 0 1000] by (auto simp: fetchWithRetry_default_def)
  have h: "(\<forall>j<n. retriable (fetch j)) \<and> fetch n = Fetch_response r
         \<and> \<not> (status r \<ge> 500 \<or> status r = 429) \<longrightarrow>
        (n \<le> 5 \<longrightarrow> fetchWithBackoff_default fetch = (Inr r, doubling 1000 n))
      \<and> (n \<le> 3 \<longrightarrow> fetchWithRetry_default fetch = (Inr r, doubling 1000 n))"
    using backoff_stops[of n fetch 0 r 5 1000] retry_stops[of n fetch 0 r 3 1000]
    by (simp add: fetchWithBackoff_default_def fetchWithRetry_default_def)
  have i: "(\<forall>j\<le>5. retriable (fetch j)) \<longrightarrow>
        fetchWithBackoff_default fetch =
          (case fetch 5 of Fetch_throws err \<Rightarrow> Inl err
           | Fetch_response r \<Rightarrow> Inl (''HTTP '' @ string_of_nat (status r) @ '': '' @ safeText r),
           [1000, 2000, 4000, 8000, 16000])"
    using backoff_default_exhaust[of fetch] by blast
  have j: "(\<forall>j\<le>3. retriable (fetch j)) \<longrightarrow>
        fetchWithRetry_default fetch =
          (case fetch 3 of Fetch_throws err \<Rightarrow> Inl err | Fetch_response r \<Rightarrow> Inr r,
           [1000, 2000, 4000])"
    using retry_default_exhaust[of fetch] by blast
  have l: "apiKey \<noteq> [] \<and> fetchWithRetry_default fetch = (res, delays)
         \<and> (\<forall>r. res = Inr r \<longrightarrow> status r \<noteq> 503 \<and> status r \<noteq> 429) \<longrightarrow>
        (\<exists>y. hf_analyzeImage (Suc rounds) apiKey fetch json = (Some y, delays))"
    using hf_returns[of apiKey fetch res delays rounds json] by blast
  have m: "apiKey \<noteq> [] \<and> (s = 503 \<or> s = 429)
         \<and> (\<forall>j. \<exists>r. fetch j = Fetch_response r \<and> status r = s
               \<and> \<not> str_includes (case body r of None \<Rightarrow> ''Unknown error'' | Some t \<Rightarrow> t)
                     ''no longer supported'') \<longrightarrow>
        hf_analyzeImage rounds apiKey fetch json =
          (None, concat (replicate rounds [1000, 2000, 4000, if s = 503 then 5000 else 10000]))"
    using hf_never_returns[of apiKey s fetch rounds json] by blast
  show ?thesis
    using a b c d e f g h i j l m by - (intro conjI; assumption)
qed

theorem retry_policy_witness:
  "fetchWithBackoff_default busy_twice = (Inr \<lparr>status = 404, body = Some ''no such model''\<rparr>, [1000, 2000])
   \<and> fetchWithRetry_default busy_twice = (Inr \<lparr>status = 404, body = Some ''no such model''\<rparr>, [1000, 2000])
   \<and> fetchWithBackoff busy_twice 2 5 1000 = (Inr \<lparr>status = 404, body = Some ''no such model''\<rparr>, [])
   \<and> fetchWithBackoff_default always_down = (Inl ''ECONNREFUSED'', [1000, 2000, 4000, 8000, 16000])
   \<and> fetchWithRetry_default always_down = (Inl ''ECONNREFUSED'', [1000, 2000, 4000])
   \<and> (\<exists>y. hf_analyzeImage (Suc 0) ''hf_key'' busy_twice caption_json = (Some y, [1000, 2000]))
   \<and> hf_analyzeImage 2 ''hf_key'' always_limited caption_json =
       (None, [1000, 2000, 4000, 10000, 1000, 2000, 4000, 10000])"
proof -
  let ?r = "\<lparr>status = 404, body = Some ''no such model''\<rparr>"
  have 1: "\<forall>j<2. retriable (busy_twice j)"
    by (simp add: retriable_def busy_twice_def)
  have 2: "busy_twice 2 = Fetch_response ?r" "busy_twice (2 + 0) = Fetch_response ?r"
    by (simp_all add: busy_twice_def)
  have 3: "\<forall>j\<le>n. retriable (always_down j)" for n
    by (simp add: retriable_def always_down_def)
  have d2: "doubling 1000 2 = [1000, 2000]"
    by (simp add: eval_nat_numeral)
  have a: "fetchWithBackoff_default busy_twice = (Inr ?r, [1000, 2000])"
    and b: "fetchWithRetry_default busy_twice = (Inr ?r, [1000, 2000])"
    using retry_policy [where fetch = busy_twice and n = 2 and r = ?r,
        THEN conjunct2, THEN conjunct2, THEN conjunct2, THEN conjunct2, THEN conjunct2,
        THEN conjunct2, THEN conjunct2, THEN conjunct1] 1 2 d2 by simp_all
  have c: "fetchWithBackoff busy_twice 2 5 1000 = (Inr ?r, [])"
    using retry_policy [where fetch = busy_twice and k = 2 and retries = 5 and delay = 1000 and r = ?r,
        THEN conjunct2, THEN conjunct2, THEN conjunct2, THEN conjunct1] 2 by simp
  have d: "fetchWithBackoff_default always_down = (Inl ''ECONNREFUSED'', [1000, 2000, 4000, 8000, 16000])"
    using retry_policy [where fetch = always_down,
        THEN conjunct2, THEN conjunct2, THEN conjunct2, THEN conjunct2, THEN conjunct2,
        THEN conjunct2, THEN conjunct2, THEN conjunct2, THEN conjunct1] 3[of 5]
    by (simp add: always_down_def)
  have e: "fetchWithRetry_default always_down = (Inl ''ECONNREFUSED'', [1000, 2000, 4000])"
    using retry_policy [where fetch = always_down,
        THEN conjunct2, THEN conjunct2, THEN conjunct2, THEN conjunct2, THEN conjunct2,
        THEN conjunct2, THEN conjunct2, THEN conjunct2, THEN conjunct2, THEN conjunct1] 3[of 3]
    by (simp add: always_down_def)
  have f: "\<exists>y. hf_analyzeImage (Suc 0) ''hf_key'' busy_twice caption_json = (Some y, [1000, 2000])"
    using retry_policy [where fetch = busy_twice and apiKey = "''hf_key''" and res = "Inr ?r"
          and delays = "[1000, 2000]" and rounds = 0 and json = caption_json,
        THEN conjunct2, THEN conjunct2, THEN conjunct2, THEN conjunct2, THEN conjunct2,
        THEN conjunct2, THEN conjunct2, THEN conjunct2, THEN conjunct2, THEN conjunct2,
        THEN conjunct1] b by simp
  have quiet: "\<not> str_includes ''Rate limit reached'' ''no longer supported''"
    by code_simp
  have limited: "\<forall>j. \<exists>r. always_limited j = Fetch_response r \<and> status r = 429
      \<and> \<not> str_includes (case body r of None \<Rightarrow> ''Unknown error'' | Some t \<Rightarrow> t) ''no longer supported''"
    using quiet by (simp add: always_limited_def)
  have g: "hf_analyzeImage 2 ''hf_key'' always_limited caption_json =
       (None, [1000, 2000, 4000, 10000, 1000, 2000, 4000, 10000])"
    using retry_policy [where fetch = always_limited and apiKey = "''hf_key''" and s = 429
          and rounds = 2 and json = caption_json,
        THEN conjunct2, THEN conjunct2, THEN conjunct2, THEN conjunct2, THEN conjunct2,
        THEN conjunct2, THEN conjunct2, THEN conjunct2, THEN conjunct2, THEN conjunct2,
        THEN conjunct2] limited by (simp add: numeral_2_eq_2)
  from a b c d e f g show ?thesis by simp
qed

subsection \<open>Creating items\<close>

lemma save_Some: "save x d = Some d1 \<Longrightarrow> d1 = d\<lparr>db_items := db_items d @ [x]\<rparr> \<and> item_schema_valid x"
  by (auto simp: save_def split: if_splits)

lemma new_Item_fields [simp]:
  "usageCount (new_Item x) = usageCount x" "isFavorite (new_Item x) = isFavorite x"
  "item_id (new_Item x) = item_id x" "userId (new_Item x) = userId x"
  "name (new_Item x) = trim (name x)"
  by (simp_all add: new_Item_def)

lemma create_ok:
  assumes "POST_items_014 req b nid ts d = (Inr x, d')"
  shows "db_items d' = db_items d @ [x] \<and> usageCount x = 0 \<and> \<not> isFavorite x"
  using assms
  by (auto simp: POST_items_014_def Let_def split: option.splits if_splits dest!: save_Some)

lemma upload_backend_ok:
  assumes "POST_upload_backend env form req d = (Inr r, d')"
  shows "\<exists>x. db_items d' = db_items d @ [x] \<and> usageCount x = 0 \<and> \<not> isFavorite x
      \<and> item_id x = new_id env \<and> userId x = or_empty (f_userId form)
      \<and> name x = trim (detectedName_backend env form) \<and> name x \<noteq> []
      \<and> name (r_item r) = [] \<and> ai_name (r_aiAnalysis r) = []"
  using assms
  by (auto simp: POST_upload_backend_def Let_def item_schema_valid_def
      split: option.splits if_splits storage_outcome.splits dest!: save_Some)

lemma upload_frontend_ok:
  assumes "POST_upload_frontend t w ai nid ts form req d = (Inr r, d')"
  shows "\<exists>x. db_items d' = db_items d @ [x] \<and> usageCount x = 0 \<and> \<not> isFavorite x"
  using assms
  by (auto simp: POST_upload_frontend_def Let_def
      split: option.splits if_splits dest!: save_Some)

lemma trim_example: "trim '' Red scarf '' = ''Red scarf''"
  by (simp add: trim_def is_space_def)

lemma replace_spaces_example: "replace_spaces ''my scarf.jpg'' = ''my-scarf.jpg''"
  by (simp add: replace_spaces_def is_space_def)

lemma greedy_create:
  "POST_items_014 (example_req ''u1'') greedy_body ''n1'' 1700000000250 example_db =
     (Inr \<lparr>item_id = ''n1'', userId = ''u1'', name = ''Red scarf'', filename = ''scarf.jpg'',
           objectUrl = ''/uploads/scarf.jpg'', thumbnailUrl = Some ''/uploads/scarf.jpg'',
           processedUrl = None, colors = [''Red''], type = ''ACCESSORY'', occasion = ''CASUAL'',
           season = ''WINTER'', laundryStatus = ''IN_WARDROBE'', usageCount = 0, isFavorite = False,
           createdAt = 1700000000250, updatedAt = 1700000000250\<rparr>,
      snd (POST_items_014 (example_req ''u1'') greedy_body ''n1'' 1700000000250 example_db))"
  by (simp add: POST_items_014_def example_req_def greedy_body_def getAuthenticatedUserId_def
      truthy_def or_else_def or_empty_def new_Item_def save_def item_schema_valid_def
      trim_def is_space_def Let_def)

lemma greedy_upload_ok:
  "\<exists>r d'. POST_upload_backend quiet_env greedy_form (example_req ''u1'') example_db = (Inr r, d')"
  by (simp add: POST_upload_backend_def quiet_env_def greedy_form_def detectedName_backend_def
      truthy_def or_else_def or_empty_def new_Item_def save_def item_schema_valid_def
      trim_def is_space_def Let_def)

lemma greedy_upload_fe_ok:
  "\<exists>r d'. POST_upload_frontend 1700000000000 True all_rejected ''n1'' 1700000000250 greedy_form (example_req ''u1'') example_db = (Inr r, d')"
  by (simp add: POST_upload_frontend_def all_rejected_def greedy_form_def
      truthy_def or_else_def or_empty_def new_Item_def save_def item_schema_valid_def
      trim_def is_space_def Let_def)



text \<open>
  Claim C9. Whenever the direct create, the backend upload or the frontend upload
  succeeds, the one document it adds to the items collection has \<open>usageCount = 0\<close> and
  \<open>isFavorite = false\<close>, whatever the request holds.
\<close>

theorem created_item_starts_unused:
  "(POST_items_014 req b nid ts d = (Inr x, d') \<longrightarrow>
      db_items d' = db_items d @ [x] \<and> usageCount x = 0 \<and> \<not> isFavorite x)
   \<and> (POST_upload_backend env form req d = (Inr r, d') \<longrightarrow>
      (\<exists>y. db_items d' = db_items d @ [y] \<and> usageCount y = 0 \<and> \<not> isFavorite y))
   \<and> (POST_upload_frontend t w ai nid ts form req d = (Inr r, d') \<longrightarrow>
      (\<exists>y. db_items d' = db_items d @ [y] \<and> usageCount y = 0 \<and> \<not> isFavorite y))"
  using create_ok[of req b nid ts d x d'] upload_backend_ok[of env form req d r d']
    upload_frontend_ok[of t w ai nid ts form req d r d']
  by blast

theorem created_item_starts_unused_witness:
  "(\<exists>x d'. POST_items_014 (example_req ''u1'') greedy_body ''n1'' 1700000000250 example_db = (Inr x, d')
       \<and> db_items d' = db_items example_db @ [x] \<and> usageCount x = 0 \<and> \<not> isFavorite x)
   \<and> (\<exists>r d' y. POST_upload_backend quiet_env greedy_form (example_req ''u1'') example_db = (Inr r, d')
       \<and> db_items d' = db_items example_db @ [y] \<and> usageCount y = 0 \<and> \<not> isFavorite y)
   \<and> (\<exists>r d' y. POST_upload_frontend 1700000000000 True all_rejected ''n1'' 1700000000250 greedy_form
          (example_req ''u1'') example_db = (Inr r, d')
       \<and> db_items d' = db_items example_db @ [y] \<and> usageCount y = 0 \<and> \<not> isFavorite y)"
proof -
  obtain x d1 where 1: "POST_items_014 (example_req ''u1'') greedy_body ''n1'' 1700000000250 example_db = (Inr x, d1)"
    using greedy_create by blast
  obtain r d2 where 2: "POST_upload_backend quiet_env greedy_form (example_req ''u1'') example_db = (Inr r, d2)"
    using greedy_upload_ok by blast
  obtain r' d3 where 3: "POST_upload_frontend 1700000000000 True all_rejected ''n1'' 1700000000250 greedy_form
          (example_req ''u1'') example_db = (Inr r', d3)"
    using greedy_upload_fe_ok by blast
  from created_item_starts_unused [of "example_req ''u1''" greedy_body "''n1''" 1700000000250 example_db x d1
      quiet_env greedy_form r 1700000000000 True all_rejected, THEN conjunct1] 1
    created_item_starts_unused [of "example_req ''u1''" greedy_body "''n1''" 1700000000250 example_db x d2
      quiet_env greedy_form r 1700000000000 True all_rejected, THEN conjunct2, THEN conjunct1] 2
    created_item_starts_unused [of "example_req ''u1''" greedy_body "''n1''" 1700000000250 example_db x d3
      quiet_env greedy_form r' 1700000000000 True all_rejected, THEN conjunct2, THEN conjunct2] 3
  show ?thesis by auto
qed



subsection \<open>AI classification\<close>

lemma find_None_list_all: "find P xs = None \<longleftrightarrow> list_all (\<lambda>x. \<not> P x) xs"
  by (induction xs) auto

lemma find_in_set: "find P xs = Some x \<Longrightarrow> x \<in> set xs"
  by (induction xs) (auto split: if_splits)

lemma pick_value_failed: "pick_value valid dflt (Inl err) = dflt"
  by (simp add: pick_value_def)

lemma pick_value_no_value: "names_no_value valid resp \<Longrightarrow> pick_value valid dflt (Inr resp) = dflt"
  by (simp add: pick_value_def names_no_value_def Let_def find_None_list_all[symmetric])

lemma pick_value_range: "dflt \<in> set valid \<Longrightarrow> pick_value valid dflt out \<in> set valid"
  by (auto simp: pick_value_def Let_def split: sum.splits option.splits dest: find_in_set)

lemma typeMap_016_values: "(key, val) \<in> set typeMap_016 \<Longrightarrow> val \<in> set validTypes"
  by (auto simp: typeMap_016_def validTypes_def)

lemma typeMap_openai_values: "(key, val) \<in> set typeMap_openai \<Longrightarrow> val \<in> set validTypes"
  by (auto simp: typeMap_openai_def validTypes_def)

lemma identify_with_map_range:
  assumes "\<And>key val. (key, val) \<in> set typeMap \<Longrightarrow> val \<in> set validTypes"
  shows "identify_with_map typeMap out \<in> set validTypes"
proof (cases out)
  case (Inl err)
  then show ?thesis by (simp add: identify_with_map_def validTypes_def)
next
  case (Inr resp)
  have top: "''TOP'' \<in> set validTypes" by (simp add: validTypes_def)
  show ?thesis
    using Inr assms top
    by (auto simp: identify_with_map_def Let_def split: option.splits dest!: find_in_set)
qed

lemma trim_empty [simp]: "trim [] = []"
  by (simp add: trim_def)

lemma names_nonempty:
  "generateItemName_gemini out \<noteq> []" "generateItemName_016 out \<noteq> []"
  "generateItemName_openai out \<noteq> []"
  by (auto simp: generateItemName_gemini_def generateItemName_016_def generateItemName_openai_def
      Let_def split: sum.splits list.splits)

text \<open>
  What the HuggingFace adapter derives from its own prompts when both image calls throw.
\<close>

lemma hf_extraction_colors: "simpleTextExtraction prompt_colors_hf = ''TOP''"
  by code_simp

lemma hf_extraction_type: "simpleTextExtraction prompt_type_hf = ''ACCESSORY''"
  by code_simp

lemma hf_extraction_occasion: "simpleTextExtraction prompt_occasion_hf = ''TOP''"
  by code_simp

lemma hf_extraction_season: "simpleTextExtraction prompt_season_hf = ''ACCESSORY''"
  by code_simp

lemma hf_extraction_name: "simpleTextExtraction prompt_name_hf = ''ACCESSORY''"
  by code_simp

lemma gemini_call_fails_Inl:
  "gemini_call_fails fetch json \<Longrightarrow> \<exists>m. gemini_analyzeImage fetch json = Inl m"
  by (auto simp: gemini_call_fails_def gemini_analyzeImage_def parseResponseText_def Let_def
      split: sum.splits option.splits)

lemma openai_call_fails_Inl:
  "openai_call_fails apiKey fetch json \<Longrightarrow> \<exists>m. openai_analyzeImage apiKey fetch json = Inl m"
  by (auto simp: openai_call_fails_def openai_analyzeImage_def Let_def
      split: sum.splits option.splits)

lemma failed_call_defaults:
  "extractColorsFromImage_gemini JSON_parse (Inl e) = [''Unknown'']"
  "identifyClothingType_gemini (Inl e) = ''TOP''"
  "suggestOccasion (Inl e) = ''CASUAL''"
  "suggestSeason (Inl e) = ''ALL_SEASON''"
  "generateItemName_gemini (Inl e) = ''Unknown Item''"
  "extractColorsFromImage_016 JSON_parse (Inl e) = [''Unknown'']"
  "identifyClothingType_016 (Inl e) = ''TOP''"
  "generateItemName_016 (Inl e) = ''Clothing Item''"
  "extractColorsFromImage_openai JSON_parse (Inl e) = [''Unknown'']"
  "identifyClothingType_openai (Inl e) = ''TOP''"
  "generateItemName_openai (Inl e) = ''Clothing Item''"
  by (simp_all add: extractColorsFromImage_gemini_def identifyClothingType_gemini_def
      suggestOccasion_def suggestSeason_def generateItemName_gemini_def pick_value_def
      extractColorsFromImage_016_def identifyClothingType_016_def generateItemName_016_def
      extractColorsFromImage_openai_def identifyClothingType_openai_def
      generateItemName_openai_def colors_lenient_def identify_with_map_def)

lemma hf_both_fail:
  "analyzeImageWithPrompt (Inl e) generated (Inl e') prompt = simpleTextExtraction prompt"
  by (simp add: analyzeImageWithPrompt_def)

lemma hf_occasion_season:
  "suggestOccasion_hf (Inl e) generated (Inl e') = ''CASUAL''"
  "suggestSeason_hf (Inl e) generated (Inl e') = ''ALL_SEASON''"
proof -
  have "suggestOccasion (Inr ''TOP'') = ''CASUAL''" by code_simp
  then show "suggestOccasion_hf (Inl e) generated (Inl e') = ''CASUAL''"
    by (simp add: suggestOccasion_hf_def hf_both_fail hf_extraction_occasion)
  have "suggestSeason (Inr ''ACCESSORY'') = ''ALL_SEASON''" by code_simp
  then show "suggestSeason_hf (Inl e) generated (Inl e') = ''ALL_SEASON''"
    by (simp add: suggestSeason_hf_def hf_both_fail hf_extraction_season)
qed

lemma hf_type_name_from_prompt:
  "identifyClothingType_hf (Inl e) generated (Inl e') = ''ACCESSORY''"
  "generateItemName_hf (Inl e) generated (Inl e') = ''ACCESSORY''"
proof -
  have "identifyClothingType_openai (Inr ''ACCESSORY'') = ''ACCESSORY''" by code_simp
  then show "identifyClothingType_hf (Inl e) generated (Inl e') = ''ACCESSORY''"
    by (simp add: identifyClothingType_hf_def hf_both_fail hf_extraction_type)
  have "generateItemName_openai (Inr ''ACCESSORY'') = ''ACCESSORY''" by code_simp
  then show "generateItemName_hf (Inl e) generated (Inl e') = ''ACCESSORY''"
    by (simp add: generateItemName_hf_def hf_both_fail hf_extraction_name)
qed

lemma hf_colors_from_prompt:
  assumes "JSON_parse ''TOP'' = None"
  shows "extractColorsFromImage_hf JSON_parse (Inl e) generated (Inl e') = [''TOP'']"
proof -
  have m: "match_bracket ''TOP'' = None" by code_simp
  have t: "colors_from_text (\<lambda>s. length s < 20 \<and> length s > 2) ''TOP'' = [''TOP'']" by code_simp
  show ?thesis
    using assms m t
    by (simp add: extractColorsFromImage_hf_def hf_both_fail hf_extraction_colors
        extractColorsFromImage_openai_def colors_lenient_def)
qed

text \<open>
  Claim C1, amended. For the two Gemini adapters and the OpenAI adapter: when the model
  call fails (\<open>gemini_call_fails\<close>, \<open>openai_call_fails\<close>), every operation returns its
  default: colours \<open>['Unknown']\<close>, type \<open>'TOP'\<close>, occasion \<open>'CASUAL'\<close>, season
  \<open>'ALL_SEASON'\<close>, and name \<open>'Clothing Item'\<close> (\<open>part_016\<close>, OpenAI) or
  \<open>'Unknown Item'\<close> (\<open>gemini.ts\<close>). A text that names no value gives the default of
  type (\<open>gemini.ts\<close>), occasion and season; type, occasion and season are always values
  of their enumerations, and the name is never empty. The HuggingFace adapter returns the
  default occasion and season when both of its image calls throw.
\<close>

theorem classification_defaults:
  "(gemini_call_fails fetch gjson \<longrightarrow>
      extractColorsFromImage_gemini JSON_parse (gemini_analyzeImage fetch gjson) = [''Unknown'']
    \<and> identifyClothingType_gemini (gemini_analyzeImage fetch gjson) = ''TOP''
    \<and> suggestOccasion (gemini_analyzeImage fetch gjson) = ''CASUAL''
    \<and> suggestSeason (gemini_analyzeImage fetch gjson) = ''ALL_SEASON''
    \<and> generateItemName_gemini (gemini_analyzeImage fetch gjson) = ''Unknown Item''
    \<and> extractColorsFromImage_016 JSON_parse (gemini_analyzeImage fetch gjson) = [''Unknown'']
    \<and> identifyClothingType_016 (gemini_analyzeImage fetch gjson) = ''TOP''
    \<and> generateItemName_016 (gemini_analyzeImage fetch gjson) = ''Clothing Item'')
   \<and> (openai_call_fails apiKey fetch ojson \<longrightarrow>
      extractColorsFromImage_openai JSON_parse (openai_analyzeImage apiKey fetch ojson) = [''Unknown'']
    \<and> identifyClothingType_openai (openai_analyzeImage apiKey fetch ojson) = ''TOP''
    \<and> suggestOccasion (openai_analyzeImage apiKey fetch ojson) = ''CASUAL''
    \<and> suggestSeason (openai_analyzeImage apiKey fetch ojson) = ''ALL_SEASON''
    \<and> generateItemName_openai (openai_analyzeImage apiKey fetch ojson) = ''Clothing Item'')
   \<and> (names_no_value validTypes resp \<longrightarrow> identifyClothingType_gemini (Inr resp) = ''TOP'')
   \<and> (names_no_value validOccasions resp \<longrightarrow> suggestOccasion (Inr resp) = ''CASUAL'')
   \<and> (names_no_value validSeasons resp \<longrightarrow> suggestSeason (Inr resp) = ''ALL_SEASON'')
   \<and> identifyClothingType_gemini out \<in> set validTypes
   \<and> identifyClothingType_016 out \<in> set validTypes
   \<and> identifyClothingType_openai out \<in> set validTypes
   \<and> suggestOccasion out \<in> set validOccasions
   \<and> suggestSeason out \<in> set validSeasons
   \<and> generateItemName_gemini out \<noteq> [] \<and> generateItemName_016 out \<noteq> []
   \<and> generateItemName_openai out \<noteq> []
   \<and> suggestOccasion_hf (Inl e) generated (Inl e') = ''CASUAL''
   \<and> suggestSeason_hf (Inl e) generated (Inl e') = ''ALL_SEASON''"
proof -
  have g: "gemini_call_fails fetch gjson \<longrightarrow>
      extractColorsFromImage_gemini JSON_parse (gemini_analyzeImage fetch gjson) = [''Unknown'']
    \<and> identifyClothingType_gemini (gemini_analyzeImage fetch gjson) = ''TOP''
    \<and> suggestOccasion (gemini_analyzeImage fetch gjson) = ''CASUAL''
    \<and> suggestSeason (gemini_analyzeImage fetch gjson) = ''ALL_SEASON''
    \<and> generateItemName_gemini (gemini_analyzeImage fetch gjson) = ''Unknown Item''
    \<and> extractColorsFromImage_016 JSON_parse (gemini_analyzeImage fetch gjson) = [''Unknown'']
    \<and> identifyClothingType_016 (gemini_analyzeImage fetch gjson) = ''TOP''
    \<and> generateItemName_016 (gemini_analyzeImage fetch gjson) = ''Clothing Item''"
  proof
    assume "gemini_call_fails fetch gjson"
    then obtain m where "gemini_analyzeImage fetch gjson = Inl m"
      using gemini_call_fails_Inl by blast
    then show "extractColorsFromImage_gemini JSON_parse (gemini_analyzeImage fetch gjson) = [''Unknown'']
    \<and> identifyClothingType_gemini (gemini_analyzeImage fetch gjson) = ''TOP''
    \<and> suggestOccasion (gemini_analyzeImage fetch gjson) = ''CASUAL''
    \<and> suggestSeason (gemini_analyzeImage fetch gjson) = ''ALL_SEASON''
    \<and> generateItemName_gemini (gemini_analyzeImage fetch gjson) = ''Unknown Item''
    \<and> extractColorsFromImage_016 JSON_parse (gemini_analyzeImage fetch gjson) = [''Unknown'']
    \<and> identifyClothingType_016 (gemini_analyzeImage fetch gjson) = ''TOP''
    \<and> generateItemName_016 (gemini_analyzeImage fetch gjson) = ''Clothing Item''"
      by (simp only: failed_call_defaults simp_thms)
  qed
  have o: "openai_call_fails apiKey fetch ojson \<longrightarrow>
      extractColorsFromImage_openai JSON_parse (openai_analyzeImage apiKey fetch ojson) = [''Unknown'']
    \<and> identifyClothingType_openai (openai_analyzeImage apiKey fetch ojson) = ''TOP''
    \<and> suggestOccasion (openai_analyzeImage apiKey fetch ojson) = ''CASUAL''
    \<and> suggestSeason (openai_analyzeImage apiKey fetch ojson) = ''ALL_SEASON''
    \<and> generateItemName_openai (openai_analyzeImage apiKey fetch ojson) = ''Clothing Item''"
  proof
    assume "openai_call_fails apiKey fetch ojson"
    then obtain m where "openai_analyzeImage apiKey fetch ojson = Inl m"
      using openai_call_fails_Inl by blast
    then show "extractColorsFromImage_openai JSON_parse (openai_analyzeImage apiKey fetch ojson) = [''Unknown'']
    \<and> identifyClothingType_openai (openai_analyzeImage apiKey fetch ojson) = ''TOP''
    \<and> suggestOccasion (openai_analyzeImage apiKey fetch ojson) = ''CASUAL''
    \<and> suggestSeason (openai_analyzeImage apiKey fetch ojson) = ''ALL_SEASON''
    \<and> generateItemName_openai (openai_analyzeImage apiKey fetch ojson) = ''Clothing Item''"
      by (simp only: failed_call_defaults simp_thms)
  qed
  have n: "names_no_value validTypes resp \<longrightarrow> identifyClothingType_gemini (Inr resp) = ''TOP''"
    "names_no_value validOccasions resp \<longrightarrow> suggestOccasion (Inr resp) = ''CASUAL''"
    "names_no_value validSeasons resp \<longrightarrow> suggestSeason (Inr resp) = ''ALL_SEASON''"
    by (simp_all add: identifyClothingType_gemini_def suggestOccasion_def suggestSeason_def
        pick_value_no_value)
  have d: "''TOP'' \<in> set validTypes" "''CASUAL'' \<in> set validOccasions"
    "''ALL_SEASON'' \<in> set validSeasons"
    by (simp_all add: validTypes_def validOccasions_def validSeasons_def)
  have r: "identifyClothingType_gemini out \<in> set validTypes"
    "identifyClothingType_016 out \<in> set validTypes"
    "identifyClothingType_openai out \<in> set validTypes"
    "suggestOccasion out \<in> set validOccasions"
    "suggestSeason out \<in> set validSeasons"
    unfolding identifyClothingType_gemini_def identifyClothingType_016_def
      identifyClothingType_openai_def suggestOccasion_def suggestSeason_def
    by (rule pick_value_range[OF d(1)] pick_value_range[OF d(2)] pick_value_range[OF d(3)]
      identify_with_map_range[of typeMap_016, OF typeMap_016_values]
      identify_with_map_range[of typeMap_openai, OF typeMap_openai_values]; assumption)+
  from g o n r names_nonempty[of out] hf_occasion_season[of e generated e']
  show ?thesis by blast
qed

text \<open>
  Claim C1, as stated, fails. With a network that is down, \<open>generateItemName\<close> of
  \<open>gemini.ts\<close> returns \<open>'Unknown Item'\<close>, not \<open>'Clothing Item'\<close>; and for a Gemini
  response whose candidates array is empty, \<open>parseResponseText\<close> hands the stringified
  body on as the text, which \<open>generateItemName\<close> of \<open>part_016\<close> returns as the name.
\<close>

theorem gemini_name_defaults_differ:
  "generateItemName_gemini (gemini_analyzeImage always_down no_json) = ''Unknown Item''
   \<and> generateItemName_016 (gemini_analyzeImage empty_candidates_service empty_candidates_json)
       = empty_candidates_text"
  by code_simp

theorem classification_defaults_witness:
  "gemini_call_fails always_down no_json
   \<and> extractColorsFromImage_gemini never_parses (gemini_analyzeImage always_down no_json) = [''Unknown'']
   \<and> identifyClothingType_gemini (gemini_analyzeImage always_down no_json) = ''TOP''
   \<and> suggestOccasion (gemini_analyzeImage always_down no_json) = ''CASUAL''
   \<and> suggestSeason (gemini_analyzeImage always_down no_json) = ''ALL_SEASON''
   \<and> generateItemName_016 (gemini_analyzeImage always_down no_json) = ''Clothing Item''
   \<and> openai_call_fails ''sk-test'' not_found_service no_json
   \<and> generateItemName_openai (openai_analyzeImage ''sk-test'' not_found_service no_json) = ''Clothing Item''
   \<and> names_no_value validOccasions ''I cannot tell''
   \<and> suggestOccasion (Inr ''I cannot tell'') = ''CASUAL''"
proof -
  have 1: "gemini_call_fails always_down no_json" by code_simp
  have 2: "openai_call_fails ''sk-test'' not_found_service no_json" by code_simp
  have 3: "names_no_value validOccasions ''I cannot tell''" by code_simp
  from classification_defaults [of always_down no_json never_parses "''sk-test''" no_json
      "''I cannot tell''" "Inl []" "[]" None "[]", THEN conjunct1] 1
    classification_defaults [of not_found_service no_json never_parses "''sk-test''" no_json
      "''I cannot tell''" "Inl []" "[]" None "[]", THEN conjunct2, THEN conjunct1] 2
    classification_defaults [of not_found_service no_json never_parses "''sk-test''" no_json
      "''I cannot tell''" "Inl []" "[]" None "[]", THEN conjunct2, THEN conjunct2, THEN conjunct2,
      THEN conjunct1] 3
  show ?thesis by simp
qed

end
